theory Spec2Isabelle
  imports Main "HOL-Library.Word"
begin

section \<open>Name codec: the dcache operations of fs/f2fs/namei.c\<close>

text \<open>
  Names are byte strings (\<open>string\<close>, a list of 8-bit characters).  A C string ends at
  its first NUL byte, so a list that is shorter than the index read is read as NUL there.
\<close>

text \<open>\<open>__f2fs_striptail_len\<close>: the loop \<open>while (len && name[len - 1] == '.') len--\<close>.\<close>

fun f2fs_striptail_len_aux :: "nat \<Rightarrow> string \<Rightarrow> nat" where
  "f2fs_striptail_len_aux 0 name = 0"
| "f2fs_striptail_len_aux (Suc len) name =
     (if len < length name \<and> name ! len = CHR ''.'' then f2fs_striptail_len_aux len name
      else Suc len)"

text \<open>\<open>f2fs_striptail_len\<close> applies the loop to a \<open>qstr\<close>: its bytes and their number.\<close>

definition f2fs_striptail_len :: "string \<Rightarrow> nat" where
  "f2fs_striptail_len qstr = f2fs_striptail_len_aux (length qstr) qstr"

text \<open>
  Modelled from the spec: the case folding of the kernel's ctype table (\<open>tolower\<close>), which
  is not under src/.  The table marks \<open>A\<close>..\<open>Z\<close> and the Latin-1 capitals as upper case,
  and folding adds 32.
\<close>

definition isupper :: "char \<Rightarrow> bool" where
  "isupper c = (let n = (of_char c :: nat) in
     (65 \<le> n \<and> n \<le> 90) \<or> (192 \<le> n \<and> n \<le> 214) \<or> (216 \<le> n \<and> n \<le> 222))"

definition tolower :: "char \<Rightarrow> char" where
  "tolower c = (if isupper c then char_of ((of_char c :: nat) + 32) else c)"

text \<open>
  Modelled from the spec: the case-insensitive byte comparison \<open>strncasecmp\<close> of the
  kernel library, which is not under src/.  It walks both strings for at most \<open>len\<close>
  bytes, stops at a NUL byte in either, and returns the difference of the bytes it
  stopped at (0 when the prefixes agree up to case).
\<close>

definition first_byte :: "string \<Rightarrow> char" where
  "first_byte s = (case s of [] \<Rightarrow> CHR 0x00 | c # _ \<Rightarrow> c)"

fun strncasecmp :: "string \<Rightarrow> string \<Rightarrow> nat \<Rightarrow> int" where
  "strncasecmp s1 s2 0 = 0"
| "strncasecmp s1 s2 (Suc len) =
     (if first_byte s1 = CHR 0x00 \<or> first_byte s2 = CHR 0x00
        then int (of_char (first_byte s1)) - int (of_char (first_byte s2))
      else if first_byte s1 = first_byte s2 then strncasecmp (tl s1) (tl s2) len
      else if tolower (first_byte s1) \<noteq> tolower (first_byte s2)
        then int (of_char (tolower (first_byte s1))) - int (of_char (tolower (first_byte s2)))
      else strncasecmp (tl s1) (tl s2) len)"

text \<open>
  \<open>f2fs_d_compare\<close>: \<open>str\<close> with its length \<open>len\<close> is the name of the cached entry,
  \<open>name\<close> the name looked up.  The result is 0 for equal names and 1 otherwise.
\<close>

definition f2fs_d_compare :: "nat \<Rightarrow> string \<Rightarrow> string \<Rightarrow> int" where
  "f2fs_d_compare len str name =
     (let alen = f2fs_striptail_len name;
          blen = f2fs_striptail_len_aux len str
      in if alen = blen then (if strncasecmp name str alen = 0 then 0 else 1) else 1)"

text \<open>The comparison of the specification: strip every trailing dot, then fold case.\<close>

definition strip_dots :: "string \<Rightarrow> string" where
  "strip_dots s = rev (dropWhile (\<lambda>c. c = CHR ''.'') (rev s))"

definition names_equal_spec :: "string \<Rightarrow> string \<Rightarrow> bool" where
  "names_equal_spec a b =
     (length (strip_dots a) = length (strip_dots b) \<and>
      map tolower (take (length (strip_dots a)) a) = map tolower (take (length (strip_dots a)) b))"

section \<open>The file-system state seen by the namespace operations\<close>

text \<open>
  The namespace operations work on directory entries, link counts, inode flags, the orphan
  registry, the node-identifier allocator and the ordering lock.  The state below holds
  exactly these.  Page mapping and release (\<open>kmap\<close>, \<open>f2fs_put_page\<close>), time stamps,
  dirty marks, \<open>update_inode_page\<close>, trace points, \<open>f2fs_balance_fs\<close> and \<open>f2fs_sync_fs\<close>
  do not change any of them and are left out.  An inode is named by its identifier, so a
  comparison of two inode pointers is a comparison of identifiers.

  The code under src/ calls collaborators that live in other files (the entry index of
  dir.c, the orphan registry of checkpoint.c, the allocator of node.c, the VFS).  Each of
  them is modelled from the specification, with a comment that says so, and every call
  of one is appended to a trace, so that the order of the calls can be stated.  Where a
  collaborator can fail for a reason outside this state (no memory, an I/O error), the
  failure is decided by the environment \<open>f2fs_env\<close>.
\<close>

type_synonym nid_t = "32 word"

datatype errno =
    ENOENT | EIO | ENOMEM | ENOSPC | EINVAL | EPERM | EMLINK | ENOTEMPTY | ENAMETOOLONG
  | EBUSY
  | OOPS  \<comment> \<open>not an error code: the kernel dereferences a NULL pointer\<close>

datatype ftype = S_IFREG | S_IFDIR | S_IFLNK | S_IFCHR

record inode =
  i_mode :: ftype
  i_nlink :: "32 word"
  I_LINKABLE :: bool
  FI_INC_LINK :: bool
  FI_INLINE_DOTS :: bool
  FI_INLINE_DATA :: bool
  FI_INLINE_DENTRY :: bool
  encrypted_inode :: bool
  enc_name :: bool
  lost_pino :: bool
  whiteout_dev :: bool

text \<open>A slot of a directory holds an entry (name, identifier of the child) or is free.\<close>

type_synonym dir_slot = "(string \<times> nid_t) option"

datatype event =
    LockOp | UnlockOp
  | FindEntry nid_t string
  | ParentDir nid_t
  | EmptyDir nid_t
  | AddLink nid_t string nid_t "errno option"
  | DeleteEntry nid_t nat "nid_t option"
  | SetLink nid_t nat nid_t
  | UpdateDent nid_t nid_t string "errno option"
  | AcquireOrphan "errno option"
  | ReleaseOrphan
  | AddOrphan nid_t
  | AllocNid "nid_t option"
  | AllocNidDone nid_t
  | AllocNidFailed nid_t
  | DoTmpfile nid_t "errno option"
  | Encrypt nid_t
  | PageSymlink nid_t nat "errno option"
  | DInstantiate string nid_t
  | Iput nid_t

record f2fs_sb_info =
  dentries :: "nid_t \<Rightarrow> dir_slot list"
  inodes :: "nid_t \<Rightarrow> inode"
  icache :: "nid_t list"
  free_nids :: "nid_t list"
  ino_num :: nat
  max_orphans :: nat
  orphans :: "nid_t list"
  cp_rwsem :: nat
  s_blocksize :: nat
  symlink_page :: "nid_t \<Rightarrow> string option"
  trace :: "event list"

record dentry =
  d_name :: string
  d_inode :: "nid_t option"
  d_parent :: nid_t
  d_op :: bool
  d_parent_op :: bool

record f2fs_env =
  add_link_err :: "nid_t \<Rightarrow> string \<Rightarrow> errno option"
  update_dent_err :: "nid_t \<Rightarrow> nid_t \<Rightarrow> errno option"
  do_tmpfile_err :: "errno option"
  new_inode_ok :: bool
  context_consistent :: "nid_t \<Rightarrow> nid_t \<Rightarrow> bool"
  may_encrypt :: "ftype \<Rightarrow> bool"
  may_inline_data :: "ftype \<Rightarrow> bool"
  may_inline_dentry :: "ftype \<Rightarrow> bool"
  iget_err :: "nid_t \<Rightarrow> errno option"
  dir_nocase_xattr :: "nid_t \<Rightarrow> bool"
  encryption_info_err :: "nid_t \<Rightarrow> errno option"
  crypto_alloc_err :: "errno option"
  fname_usr_to_disk :: "nid_t \<Rightarrow> string \<Rightarrow> errno + string"
  kzalloc_ok :: bool
  page_symlink_err :: "errno option"

definition record_event :: "event \<Rightarrow> f2fs_sb_info \<Rightarrow> f2fs_sb_info" where
  "record_event e s = s\<lparr>trace := trace s @ [e]\<rparr>"

definition S_ISDIR :: "f2fs_sb_info \<Rightarrow> nid_t \<Rightarrow> bool" where
  "S_ISDIR s ino = (i_mode (inodes s ino) = S_IFDIR)"

subsection \<open>The ordering lock\<close>

text \<open>
  Modelled from the spec: \<open>f2fs_lock_op\<close> and \<open>f2fs_unlock_op\<close> (f2fs.h) take and release
  the file-system-wide ordering lock; the state counts its holders.
\<close>

definition f2fs_lock_op :: "f2fs_sb_info \<Rightarrow> f2fs_sb_info" where
  "f2fs_lock_op s = record_event LockOp (s\<lparr>cp_rwsem := cp_rwsem s + 1\<rparr>)"

definition f2fs_unlock_op :: "f2fs_sb_info \<Rightarrow> f2fs_sb_info" where
  "f2fs_unlock_op s = record_event UnlockOp (s\<lparr>cp_rwsem := cp_rwsem s - 1\<rparr>)"

subsection \<open>The entry index\<close>

text \<open>
  Modelled from the spec: the entry index (dir.c) offers \<open>find\<close>, \<open>insert\<close>, \<open>remove\<close> and
  \<open>retarget\<close> of a single entry of one directory.  A found entry is named by its slot.
  With \<open>LOOKUP_NOCASE\<close> names are matched by the case-insensitive comparison.
\<close>

definition name_matches :: "bool \<Rightarrow> string \<Rightarrow> string \<Rightarrow> bool" where
  "name_matches nocase name entry_name =
     (if nocase then f2fs_d_compare (length entry_name) entry_name name = 0
      else entry_name = name)"

fun find_slot :: "bool \<Rightarrow> string \<Rightarrow> dir_slot list \<Rightarrow> nat option" where
  "find_slot nocase name [] = None"
| "find_slot nocase name (None # es) = map_option Suc (find_slot nocase name es)"
| "find_slot nocase name (Some (m, ino) # es) =
     (if name_matches nocase name m then Some 0
      else map_option Suc (find_slot nocase name es))"

text \<open>The identifier stored in a slot (\<open>de->ino\<close>); a free slot reads as 0.\<close>

fun slot_ino :: "dir_slot list \<Rightarrow> nat \<Rightarrow> nid_t" where
  "slot_ino [] n = 0"
| "slot_ino (e # es) 0 = (case e of None \<Rightarrow> 0 | Some (m, ino) \<Rightarrow> ino)"
| "slot_ino (e # es) (Suc n) = slot_ino es n"

text \<open>
  Modelled from the spec: \<open>LOOKUP_NOCASE\<close> (include/linux/namei.h) is one bit of the
  lookup flags; its position is fixed outside this file, and the model takes bit 15.
  \<open>f2fs_find_entry\<close> is handed the flags of its caller and matches without regard to
  case when that bit is set.
\<close>

definition LOOKUP_NOCASE :: "32 word" where
  "LOOKUP_NOCASE = 0x8000"

definition f2fs_find_entry ::
  "f2fs_sb_info \<Rightarrow> nid_t \<Rightarrow> string \<Rightarrow> 32 word \<Rightarrow> nat option \<times> f2fs_sb_info" where
  "f2fs_find_entry s dir name flags =
     (find_slot (and flags LOOKUP_NOCASE \<noteq> 0) name (dentries s dir),
      record_event (FindEntry dir name) s)"

text \<open>
  Modelled from the spec: \<open>f2fs_parent_dir\<close> (dir.c) locates the ".." entry of a
  directory, and \<open>f2fs_empty_dir\<close> (dir.c) tells whether a directory holds only the two
  dot entries.
\<close>

definition f2fs_parent_dir :: "f2fs_sb_info \<Rightarrow> nid_t \<Rightarrow> nat option \<times> f2fs_sb_info" where
  "f2fs_parent_dir s ino =
     (find_slot False ''..'' (dentries s ino), record_event (ParentDir ino) s)"

definition is_dot_slot :: "dir_slot \<Rightarrow> bool" where
  "is_dot_slot e = (case e of None \<Rightarrow> True | Some (m, ino) \<Rightarrow> m = ''.'' \<or> m = ''..'')"

definition f2fs_empty_dir :: "f2fs_sb_info \<Rightarrow> nid_t \<Rightarrow> bool \<times> f2fs_sb_info" where
  "f2fs_empty_dir s ino =
     (list_all is_dot_slot (dentries s ino), record_event (EmptyDir ino) s)"

text \<open>
  Modelled from the spec: \<open>__f2fs_add_link\<close> (dir.c) inserts one entry, or fails and
  leaves the directory as it was.
\<close>

definition f2fs_add_link_raw ::
  "f2fs_env \<Rightarrow> f2fs_sb_info \<Rightarrow> nid_t \<Rightarrow> string \<Rightarrow> nid_t \<Rightarrow> (errno + unit) \<times> f2fs_sb_info" where
  "f2fs_add_link_raw env s dir name ino =
     (case add_link_err env dir name of
        Some e \<Rightarrow> (Inl e, record_event (AddLink dir name ino (Some e)) s)
      | None \<Rightarrow>
          (Inr (), record_event (AddLink dir name ino None)
             (s\<lparr>dentries := (dentries s)(dir := dentries s dir @ [Some (name, ino)])\<rparr>)))"

text \<open>\<open>f2fs_add_link\<close> (f2fs.h) inserts under the parent and the name of the dentry.\<close>

definition f2fs_add_link ::
  "f2fs_env \<Rightarrow> f2fs_sb_info \<Rightarrow> dentry \<Rightarrow> nid_t \<Rightarrow> (errno + unit) \<times> f2fs_sb_info" where
  "f2fs_add_link env s dentry ino = f2fs_add_link_raw env s (d_parent dentry) (d_name dentry) ino"

text \<open>
  Modelled from the spec: \<open>f2fs_delete_entry\<close> (dir.c) removes the entry of a slot; the
  link count of the inode it named is left to that inode's finalisation.
\<close>

definition f2fs_delete_entry ::
  "f2fs_sb_info \<Rightarrow> nid_t \<Rightarrow> nat \<Rightarrow> nid_t option \<Rightarrow> f2fs_sb_info" where
  "f2fs_delete_entry s dir slot inode =
     record_event (DeleteEntry dir slot inode)
       (s\<lparr>dentries := (dentries s)(dir := (dentries s dir)[slot := None])\<rparr>)"

text \<open>
  Modelled from the spec: \<open>f2fs_set_link\<close> (dir.c) repoints the entry of a slot to another
  inode and keeps its name.
\<close>

fun map_at :: "nat \<Rightarrow> ('a \<Rightarrow> 'a) \<Rightarrow> 'a list \<Rightarrow> 'a list" where
  "map_at n f [] = []"
| "map_at 0 f (x # xs) = f x # xs"
| "map_at (Suc n) f (x # xs) = x # map_at n f xs"

definition retarget_slot :: "nid_t \<Rightarrow> dir_slot \<Rightarrow> dir_slot" where
  "retarget_slot ino e = (case e of None \<Rightarrow> None | Some (m, old) \<Rightarrow> Some (m, ino))"

definition f2fs_set_link :: "f2fs_sb_info \<Rightarrow> nid_t \<Rightarrow> nat \<Rightarrow> nid_t \<Rightarrow> f2fs_sb_info" where
  "f2fs_set_link s dir slot ino =
     record_event (SetLink dir slot ino)
       (s\<lparr>dentries := (dentries s)(dir := map_at slot (retarget_slot ino) (dentries s dir))\<rparr>)"

subsection \<open>The orphan registry\<close>

text \<open>
  Modelled from the spec: the orphan registry (checkpoint.c) offers \<open>reserve\<close>, which
  fails when no slot is left, \<open>release\<close> of a reserved slot, and \<open>add\<close>, which registers
  an inode identifier in a slot reserved before.
\<close>

definition acquire_orphan_inode :: "f2fs_sb_info \<Rightarrow> (errno + unit) \<times> f2fs_sb_info" where
  "acquire_orphan_inode s =
     (if ino_num s \<ge> max_orphans s then (Inl ENOSPC, record_event (AcquireOrphan (Some ENOSPC)) s)
      else (Inr (), record_event (AcquireOrphan None) (s\<lparr>ino_num := ino_num s + 1\<rparr>)))"

definition release_orphan_inode :: "f2fs_sb_info \<Rightarrow> f2fs_sb_info" where
  "release_orphan_inode s = record_event ReleaseOrphan (s\<lparr>ino_num := ino_num s - 1\<rparr>)"

definition add_orphan_inode :: "f2fs_sb_info \<Rightarrow> nid_t \<Rightarrow> f2fs_sb_info" where
  "add_orphan_inode s ino = record_event (AddOrphan ino) (s\<lparr>orphans := List.insert ino (orphans s)\<rparr>)"

subsection \<open>Link counts\<close>

text \<open>
  Modelled from the spec: \<open>drop_nlink\<close> and \<open>inc_nlink\<close> (VFS) decrement and increment the
  32-bit link count of an inode.
\<close>

definition drop_nlink :: "f2fs_sb_info \<Rightarrow> nid_t \<Rightarrow> f2fs_sb_info" where
  "drop_nlink s ino =
     s\<lparr>inodes := (inodes s)(ino := (inodes s ino)\<lparr>i_nlink := i_nlink (inodes s ino) - 1\<rparr>)\<rparr>"

definition inc_nlink :: "f2fs_sb_info \<Rightarrow> nid_t \<Rightarrow> f2fs_sb_info" where
  "inc_nlink s ino =
     s\<lparr>inodes := (inodes s)(ino := (inodes s ino)\<lparr>i_nlink := i_nlink (inodes s ino) + 1\<rparr>)\<rparr>"

section \<open>Removal operations\<close>

text \<open>
  \<open>f2fs_unlink\<close>: the entry is looked up first; the lock is taken and an orphan slot is
  reserved before the entry is removed.
\<close>

definition f2fs_unlink ::
  "f2fs_sb_info \<Rightarrow> nid_t \<Rightarrow> dentry \<Rightarrow> (errno + unit) \<times> f2fs_sb_info" where
  "f2fs_unlink s dir dentry =
     (case f2fs_find_entry s dir (d_name dentry) 0 of
        (None, s1) \<Rightarrow> (Inl ENOENT, s1)
      | (Some de, s1) \<Rightarrow>
          (case acquire_orphan_inode (f2fs_lock_op s1) of
             (Inl err, s2) \<Rightarrow> (Inl err, f2fs_unlock_op s2)
           | (Inr u, s2) \<Rightarrow>
               (Inr (), f2fs_unlock_op (f2fs_delete_entry s2 dir de (d_inode dentry)))))"

text \<open>
  \<open>f2fs_rmdir\<close>: \<open>inode = dentry->d_inode\<close> is read by \<open>f2fs_empty_dir\<close> at once, so a
  dentry without an inode is a NULL dereference.
\<close>

definition f2fs_rmdir ::
  "f2fs_sb_info \<Rightarrow> nid_t \<Rightarrow> dentry \<Rightarrow> (errno + unit) \<times> f2fs_sb_info" where
  "f2fs_rmdir s dir dentry =
     (case d_inode dentry of
        None \<Rightarrow> (Inl OOPS, s)
      | Some inode \<Rightarrow>
          (case f2fs_empty_dir s inode of
             (True, s1) \<Rightarrow> f2fs_unlink s1 dir dentry
           | (False, s1) \<Rightarrow> (Inl ENOTEMPTY, s1)))"

section \<open>Dot-entry recovery and lookup\<close>

definition clear_inline_dots :: "f2fs_sb_info \<Rightarrow> nid_t \<Rightarrow> f2fs_sb_info" where
  "clear_inline_dots s ino = s\<lparr>inodes := (inodes s)(ino := (inodes s ino)\<lparr>FI_INLINE_DOTS := False\<rparr>)\<rparr>"

text \<open>
  \<open>__recover_dot_dentries\<close>: under the lock, "." is looked up and inserted when absent
  (a failure jumps to \<open>out\<close>), then ".." likewise; the flag is cleared when \<open>err\<close> is 0.
\<close>

definition recover_dot_dentries ::
  "f2fs_env \<Rightarrow> f2fs_sb_info \<Rightarrow> nid_t \<Rightarrow> nid_t \<Rightarrow> (errno + unit) \<times> f2fs_sb_info" where
  "recover_dot_dentries env s dir pino =
     (let s1 = f2fs_lock_op s;
          (de, s2) = f2fs_find_entry s1 dir ''.'' 0;
          (err, s3) = (case de of Some x \<Rightarrow> (Inr (), s2)
                       | None \<Rightarrow> f2fs_add_link_raw env s2 dir ''.'' dir)
      in case err of
           Inl e \<Rightarrow> (Inl e, f2fs_unlock_op s3)
         | Inr u \<Rightarrow>
             (let (de2, s4) = f2fs_find_entry s3 dir ''..'' 0;
                  (err2, s5) = (case de2 of Some x \<Rightarrow> (Inr (), s4)
                                | None \<Rightarrow> f2fs_add_link_raw env s4 dir ''..'' pino)
              in case err2 of
                   Inl e \<Rightarrow> (Inl e, f2fs_unlock_op s5)
                 | Inr u \<Rightarrow> (Inr (), f2fs_unlock_op (clear_inline_dots s5 dir))))"

text \<open>
  Modelled from the spec: the greatest length of a name, \<open>F2FS_NAME_LEN\<close>, a constant of
  f2fs_fs.h, which is not under src/.
\<close>

definition F2FS_NAME_LEN :: nat where
  "F2FS_NAME_LEN = 255"

text \<open>
  \<open>f2fs_lookup\<close>.  The result is the dentry as \<open>d_splice_alias\<close> leaves it: with the
  inode found, or negative when the name is absent.  \<open>f2fs_iget\<close> and the read of the
  no-case attribute are answered by the environment.
\<close>

definition f2fs_lookup ::
  "f2fs_env \<Rightarrow> f2fs_sb_info \<Rightarrow> nid_t \<Rightarrow> dentry \<Rightarrow> 32 word \<Rightarrow>
   (errno + dentry) \<times> f2fs_sb_info" where
  "f2fs_lookup env s dir dentry flags =
     (if length (d_name dentry) > F2FS_NAME_LEN then (Inl ENAMETOOLONG, s)
      else
        let dentry1 = (if \<not> d_op dentry \<and> d_parent_op dentry then dentry\<lparr>d_op := True\<rparr>
                       else dentry);
            flags1 = (if d_op dentry1 then or flags LOOKUP_NOCASE else flags);
            (de, s1) = f2fs_find_entry s dir (d_name dentry1) flags1
        in case de of
             None \<Rightarrow> (Inr (dentry1\<lparr>d_inode := None\<rparr>), s1)
           | Some slot \<Rightarrow>
               (let ino = slot_ino (dentries s1 dir) slot
                in case iget_err env ino of
                     Some e \<Rightarrow> (Inl e, s1)
                   | None \<Rightarrow>
                       (let (err, s2) =
                              (if FI_INLINE_DOTS (inodes s1 ino)
                               then recover_dot_dentries env s1 ino dir
                               else (Inr (), s1))
                        in case err of
                             Inl e \<Rightarrow> (Inl e, s2)
                           | Inr u \<Rightarrow>
                               (let dentry2 =
                                      (if S_ISDIR s2 ino \<and> \<not> d_op dentry1 \<and>
                                          dir_nocase_xattr env ino
                                       then dentry1\<lparr>d_op := True\<rparr> else dentry1)
                                in (Inr (dentry2\<lparr>d_inode := Some ino\<rparr>), s2)))))"

text \<open>Observations on a directory, used to state the properties of the recovery.\<close>

definition has_entry :: "f2fs_sb_info \<Rightarrow> nid_t \<Rightarrow> string \<Rightarrow> bool" where
  "has_entry s dir name = (find_slot False name (dentries s dir) \<noteq> None)"

definition slot_named :: "string \<Rightarrow> dir_slot \<Rightarrow> bool" where
  "slot_named name e = (case e of None \<Rightarrow> False | Some (m, ino) \<Rightarrow> m = name)"

definition count_name :: "string \<Rightarrow> dir_slot list \<Rightarrow> nat" where
  "count_name name ds = length (filter (slot_named name) ds)"

section \<open>Inode bootstrap\<close>

text \<open>
  Modelled from the spec: the allocator of node identifiers (node.c) offers
  \<open>allocate_id\<close>, which fails when no identifier is free, \<open>finalize\<close> and \<open>release\<close>.
\<close>

definition alloc_nid :: "f2fs_sb_info \<Rightarrow> nid_t option \<times> f2fs_sb_info" where
  "alloc_nid s =
     (case free_nids s of
        [] \<Rightarrow> (None, record_event (AllocNid None) s)
      | n # ns \<Rightarrow> (Some n, record_event (AllocNid (Some n)) (s\<lparr>free_nids := ns\<rparr>)))"

definition alloc_nid_done :: "f2fs_sb_info \<Rightarrow> nid_t \<Rightarrow> f2fs_sb_info" where
  "alloc_nid_done s ino = record_event (AllocNidDone ino) s"

definition alloc_nid_failed :: "f2fs_sb_info \<Rightarrow> nid_t \<Rightarrow> f2fs_sb_info" where
  "alloc_nid_failed s ino = record_event (AllocNidFailed ino) (s\<lparr>free_nids := ino # free_nids s\<rparr>)"

text \<open>
  Modelled from the spec: \<open>insert_inode_locked\<close> (VFS) registers the identifier in the
  cache of live inodes and fails when it is there already.
\<close>

definition insert_inode_locked :: "f2fs_sb_info \<Rightarrow> nid_t \<Rightarrow> f2fs_sb_info option" where
  "insert_inode_locked s ino =
     (if ino \<in> set (icache s) then None else Some (s\<lparr>icache := ino # icache s\<rparr>))"

text \<open>
  The inode as \<open>f2fs_new_inode\<close> leaves it: \<open>new_inode\<close> gives link count 1; the
  encrypted flag is inherited from an encrypted directory when the type may be
  encrypted; the two inline flags follow \<open>f2fs_may_inline_data\<close> and
  \<open>f2fs_may_inline_dentry\<close>.
\<close>

definition fresh_inode :: "f2fs_env \<Rightarrow> f2fs_sb_info \<Rightarrow> nid_t \<Rightarrow> ftype \<Rightarrow> inode" where
  "fresh_inode env s dir mode =
     \<lparr>i_mode = mode, i_nlink = 1, I_LINKABLE = False, FI_INC_LINK = False,
      FI_INLINE_DOTS = False, FI_INLINE_DATA = may_inline_data env mode,
      FI_INLINE_DENTRY = may_inline_dentry env mode,
      encrypted_inode = (encrypted_inode (inodes s dir) \<and> may_encrypt env mode),
      enc_name = False, lost_pino = False, whiteout_dev = False\<rparr>"

text \<open>
  \<open>f2fs_new_inode\<close>.  On the path \<open>fail\<close> the inode object is dropped by \<open>iput\<close>; with
  \<open>nid_free\<close> set its identifier goes back to the allocator.
\<close>

definition f2fs_new_inode ::
  "f2fs_env \<Rightarrow> f2fs_sb_info \<Rightarrow> nid_t \<Rightarrow> ftype \<Rightarrow> (errno + nid_t) \<times> f2fs_sb_info" where
  "f2fs_new_inode env s dir mode =
     (if \<not> new_inode_ok env then (Inl ENOMEM, s)
      else
        case alloc_nid (f2fs_lock_op s) of
          (None, s1) \<Rightarrow> (Inl ENOSPC, f2fs_unlock_op s1)
        | (Some ino, s1) \<Rightarrow>
            (let s2 = f2fs_unlock_op s1
             in case insert_inode_locked s2 ino of
                  None \<Rightarrow> (Inl EINVAL, alloc_nid_failed s2 ino)
                | Some s3 \<Rightarrow>
                    (Inr ino, s3\<lparr>inodes := (inodes s3)(ino := fresh_inode env s3 dir mode)\<rparr>)))"

text \<open>
  Modelled from the spec: \<open>handle_failed_inode\<close> (inode.c) unwinds a bootstrap whose
  insertion failed: it discards the inode, releases its identifier and releases the
  ordering lock.
\<close>

definition handle_failed_inode :: "f2fs_sb_info \<Rightarrow> nid_t \<Rightarrow> f2fs_sb_info" where
  "handle_failed_inode s ino =
     f2fs_unlock_op (alloc_nid_failed (s\<lparr>icache := removeAll ino (icache s)\<rparr>) ino)"

section \<open>Symbolic links\<close>

text \<open>
  Modelled from the spec: the encrypted-symlink container is a 16-bit little-endian
  length followed by the encrypted path.  The C structure (f2fs.h, not under src/)
  declares the path with one byte, so its size is 3, and
  \<open>encrypted_symlink_data_len l\<close> is \<open>l + sizeof - 1\<close>.
\<close>

definition sizeof_encrypted_symlink_data :: nat where
  "sizeof_encrypted_symlink_data = 3"

definition encrypted_symlink_data_len :: "nat \<Rightarrow> nat" where
  "encrypted_symlink_data_len l = l + sizeof_encrypted_symlink_data - 1"

definition cpu_to_le16 :: "nat \<Rightarrow> string" where
  "cpu_to_le16 n = [char_of (n mod 256), char_of (n div 256 mod 256)]"

text \<open>
  Modelled from the spec: \<open>page_symlink\<close> (VFS) stores the first \<open>len - 1\<close> bytes of the
  target in the first page of the inode, or fails and stores nothing.
\<close>

definition page_symlink ::
  "f2fs_env \<Rightarrow> f2fs_sb_info \<Rightarrow> nid_t \<Rightarrow> string \<Rightarrow> nat \<Rightarrow> (errno + unit) \<times> f2fs_sb_info" where
  "page_symlink env s ino p_str p_len =
     (case page_symlink_err env of
        Some e \<Rightarrow> (Inl e, record_event (PageSymlink ino p_len (Some e)) s)
      | None \<Rightarrow>
          (Inr (), record_event (PageSymlink ino p_len None)
             (s\<lparr>symlink_page := (symlink_page s)(ino := Some (take (p_len - 1) p_str))\<rparr>)))"

text \<open>The label \<open>err_out\<close> of \<open>f2fs_symlink\<close>: the dentry is instantiated, \<open>err\<close> returned.\<close>

definition symlink_err_out ::
  "f2fs_sb_info \<Rightarrow> dentry \<Rightarrow> nid_t \<Rightarrow> errno + unit \<Rightarrow> (errno + unit) \<times> f2fs_sb_info" where
  "symlink_err_out s dentry ino err = (err, record_event (DInstantiate (d_name dentry) ino) s)"

text \<open>
  \<open>f2fs_symlink\<close>.  \<open>symname\<close> is the target without its final NUL.  In an encrypted
  directory the target is encrypted and wrapped in the container \<open>sd\<close> before it is
  stored.
\<close>

definition f2fs_symlink ::
  "f2fs_env \<Rightarrow> f2fs_sb_info \<Rightarrow> nid_t \<Rightarrow> dentry \<Rightarrow> string \<Rightarrow> (errno + unit) \<times> f2fs_sb_info" where
  "f2fs_symlink env s dir dentry symname =
     (let len = length symname in
      if len > s_blocksize s then (Inl ENAMETOOLONG, s)
      else
        case f2fs_new_inode env s dir S_IFLNK of
          (Inl e, s1) \<Rightarrow> (Inl e, s1)
        | (Inr inode, s1) \<Rightarrow>
            (case f2fs_add_link env (f2fs_lock_op s1) dentry inode of
               (Inl e, s2) \<Rightarrow> (Inl e, handle_failed_inode s2 inode)
             | (Inr u, s2) \<Rightarrow>
                 (let s3 = alloc_nid_done (f2fs_unlock_op s2) inode in
                  if encrypted_inode (inodes s3 dir) then
                    (case encryption_info_err env inode of
                       Some e \<Rightarrow> symlink_err_out s3 dentry inode (Inl e)
                     | None \<Rightarrow>
                        (case crypto_alloc_err env of
                           Some e \<Rightarrow> symlink_err_out s3 dentry inode (Inl e)
                         | None \<Rightarrow>
                            (case fname_usr_to_disk env inode symname of
                               Inl e \<Rightarrow>
                                 symlink_err_out (record_event (Encrypt inode) s3) dentry inode (Inl e)
                             | Inr disk_link \<Rightarrow>
                                 (let s4 = record_event (Encrypt inode) s3;
                                      p_len = encrypted_symlink_data_len (length disk_link) + 1
                                  in if p_len > s_blocksize s4
                                       then symlink_err_out s4 dentry inode (Inl ENAMETOOLONG)
                                     else if \<not> kzalloc_ok env
                                       then symlink_err_out s4 dentry inode (Inl ENOMEM)
                                     else
                                       (case page_symlink env s4 inode
                                               (cpu_to_le16 (length disk_link) @ disk_link) p_len of
                                          (err, s5) \<Rightarrow> symlink_err_out s5 dentry inode err)))))
                  else
                    (case page_symlink env s3 inode symname (len + 1) of
                       (err, s4) \<Rightarrow> symlink_err_out s4 dentry inode err))))"

subsection \<open>Reading an encrypted symbolic link\<close>

text \<open>
  \<open>f2fs_encrypted_follow_link\<close> reads the first page of the link and decodes the
  container in it.  What it is given is collected in \<open>follow_input\<close>: the size of the
  inode, the block size, the page as \<open>read_mapping_page\<close> returns it, and the answers of
  the collaborators.  C reads memory without checks, so two reads need care.
  \<open>memcpy\<close> copies \<open>len\<close> bytes from offset 2 of the page whatever \<open>len\<close> is: the bytes
  that lie behind the page are part of the input.  And \<open>cstr.name[0]\<close> is read before
  \<open>cstr.len == 0\<close> is tested: for a stored length of zero the buffer is the one
  \<open>kmalloc(0)\<close> returns, which holds no byte, and the read faults; the outcome is
  \<open>OOPS\<close>, as for every fault of the kernel.  Each allocation, copy and call of the
  cipher is recorded in order.
\<close>

datatype follow_event = Kmalloc nat | Memcpy nat nat | Decrypt nat

record follow_input =
  fl_i_size :: nat
  fl_blocksize :: nat
  fl_encryption_info_err :: "errno option"
  fl_page :: "errno + string"
  fl_behind_page :: string
  fl_kmalloc_ok :: bool
  fl_crypto_alloc_err :: "errno option"
  fl_disk_to_usr :: "string \<Rightarrow> errno + string"

definition le16_to_cpu :: "string \<Rightarrow> nat" where
  "le16_to_cpu bytes = of_char (first_byte bytes) + 256 * of_char (first_byte (tl bytes))"

definition f2fs_encrypted_follow_link ::
  "follow_input \<Rightarrow> (errno + string) \<times> follow_event list" where
  "f2fs_encrypted_follow_link inp =
     (case fl_encryption_info_err inp of
        Some e \<Rightarrow> (Inl e, [])
      | None \<Rightarrow>
         (case fl_page inp of
            Inl e \<Rightarrow> (Inl e, [])
          | Inr page \<Rightarrow>
             (let size = min (fl_i_size inp) (length page - 1);
                  max_size = fl_blocksize inp;
                  caddr = page[size := CHR 0x00];
                  len = le16_to_cpu caddr
              in if \<not> fl_kmalloc_ok inp then (Inl ENOMEM, [Kmalloc len])
                 else
                   let name = take len (drop 2 (caddr @ fl_behind_page inp));
                       ev = [Kmalloc len, Memcpy 2 len]
                   in if len = 0 then (Inl OOPS, ev)
                      else if first_byte name = CHR 0x00 \<and> len = 0 then (Inl ENOENT, ev)
                      else if len + sizeof_encrypted_symlink_data - 1 > max_size
                        then (Inl EIO, ev)
                      else
                        (case fl_crypto_alloc_err inp of
                           Some e \<Rightarrow> (Inl e, ev)
                         | None \<Rightarrow>
                            (case fl_disk_to_usr inp name of
                               Inl e \<Rightarrow> (Inl e, ev @ [Decrypt len])
                             | Inr paddr \<Rightarrow> (Inr paddr, ev @ [Decrypt len]))))))"

text \<open>
  A page of 4096 bytes whose length field holds \<open>n\<close>, and an input that reads it with
  a cipher that fails on nothing.
\<close>

definition container_page :: "nat \<Rightarrow> string \<Rightarrow> string" where
  "container_page n path =
     cpu_to_le16 n @ path @ replicate (4094 - length path) CHR 0x00"

definition follow_example :: "string \<Rightarrow> (string \<Rightarrow> errno + string) \<Rightarrow> follow_input" where
  "follow_example page cipher =
     \<lparr>fl_i_size = 4095, fl_blocksize = 4096, fl_encryption_info_err = None,
      fl_page = Inr page, fl_behind_page = replicate 65536 CHR ''?'',
      fl_kmalloc_ok = True,
      fl_crypto_alloc_err = None, fl_disk_to_usr = cipher\<rparr>"

section \<open>Temporary files and whiteouts\<close>

text \<open>
  Modelled from the spec: \<open>f2fs_do_tmpfile\<close> (dir.c) writes the metadata of an inode that
  has no name, and may fail; \<open>iput\<close> (VFS) drops a reference to an inode.
\<close>

definition f2fs_do_tmpfile ::
  "f2fs_env \<Rightarrow> f2fs_sb_info \<Rightarrow> nid_t \<Rightarrow> nid_t \<Rightarrow> (errno + unit) \<times> f2fs_sb_info" where
  "f2fs_do_tmpfile env s inode dir =
     (case do_tmpfile_err env of
        Some e \<Rightarrow> (Inl e, record_event (DoTmpfile inode (Some e)) s)
      | None \<Rightarrow> (Inr (), record_event (DoTmpfile inode None) s))"

definition iput :: "f2fs_sb_info \<Rightarrow> nid_t \<Rightarrow> f2fs_sb_info" where
  "iput s inode = record_event (Iput inode) s"

definition set_whiteout_dev :: "f2fs_sb_info \<Rightarrow> nid_t \<Rightarrow> f2fs_sb_info" where
  "set_whiteout_dev s ino = s\<lparr>inodes := (inodes s)(ino := (inodes s ino)\<lparr>whiteout_dev := True\<rparr>)\<rparr>"

text \<open>
  \<open>__f2fs_tmpfile\<close>.  \<open>dentry\<close> is absent and \<open>whiteout\<close> is set when a whiteout is
  created; the result is the new inode.  The labels \<open>release_out\<close> and \<open>out\<close> end in
  \<open>handle_failed_inode\<close>, which releases the lock.
\<close>

definition f2fs_tmpfile_raw ::
  "f2fs_env \<Rightarrow> f2fs_sb_info \<Rightarrow> nid_t \<Rightarrow> dentry option \<Rightarrow> ftype \<Rightarrow> bool \<Rightarrow>
   (errno + nid_t) \<times> f2fs_sb_info" where
  "f2fs_tmpfile_raw env s dir dentry mode whiteout =
     (case f2fs_new_inode env s dir mode of
        (Inl e, s1) \<Rightarrow> (Inl e, s1)
      | (Inr inode, s1) \<Rightarrow>
          (let s2 = (if whiteout then set_whiteout_dev s1 inode else s1)
           in case acquire_orphan_inode (f2fs_lock_op s2) of
                (Inl e, s3) \<Rightarrow> (Inl e, handle_failed_inode s3 inode)
              | (Inr u, s3) \<Rightarrow>
                  (case f2fs_do_tmpfile env s3 inode dir of
                     (Inl e, s4) \<Rightarrow> (Inl e, handle_failed_inode (release_orphan_inode s4) inode)
                   | (Inr u, s4) \<Rightarrow>
                       (let s5 = alloc_nid_done (f2fs_unlock_op (add_orphan_inode s4 inode)) inode
                        in if whiteout then (Inr inode, drop_nlink s5 inode)
                           else (Inr inode,
                                 case dentry of
                                   None \<Rightarrow> s5
                                 | Some d \<Rightarrow> record_event (DInstantiate (d_name d) inode) s5)))))"

definition f2fs_create_whiteout ::
  "f2fs_env \<Rightarrow> f2fs_sb_info \<Rightarrow> nid_t \<Rightarrow> (errno + nid_t) \<times> f2fs_sb_info" where
  "f2fs_create_whiteout env s dir = f2fs_tmpfile_raw env s dir None S_IFCHR True"

section \<open>Plain rename\<close>

text \<open>
  Modelled from the spec: \<open>update_dent_inode\<close> (dir.c) rewrites the name kept in the
  metadata page of an inode, and fails when the page cannot be read.
\<close>

definition update_dent_inode ::
  "f2fs_env \<Rightarrow> f2fs_sb_info \<Rightarrow> nid_t \<Rightarrow> nid_t \<Rightarrow> string \<Rightarrow> (errno + unit) \<times> f2fs_sb_info" where
  "update_dent_inode env s inode to name =
     (case update_dent_err env inode to of
        Some e \<Rightarrow> (Inl e, record_event (UpdateDent inode to name (Some e)) s)
      | None \<Rightarrow> (Inr (), record_event (UpdateDent inode to name None) s))"

text \<open>The label \<open>out_whiteout\<close>: a whiteout that was created is dropped.\<close>

definition out_whiteout :: "f2fs_sb_info \<Rightarrow> nid_t option \<Rightarrow> f2fs_sb_info" where
  "out_whiteout s whiteout = (case whiteout of None \<Rightarrow> s | Some w \<Rightarrow> iput s w)"

text \<open>The label \<open>put_out_dir\<close>: the lock is released, then \<open>out_whiteout\<close>.\<close>

definition put_out_dir :: "f2fs_sb_info \<Rightarrow> nid_t option \<Rightarrow> f2fs_sb_info" where
  "put_out_dir s whiteout = out_whiteout (f2fs_unlock_op s) whiteout"

definition set_linkable :: "f2fs_sb_info \<Rightarrow> nid_t \<Rightarrow> f2fs_sb_info" where
  "set_linkable s w =
     s\<lparr>inodes := (inodes s)(w := (inodes s w)\<lparr>I_LINKABLE := True, FI_INC_LINK := True\<rparr>)\<rparr>"

definition clear_linkable :: "f2fs_sb_info \<Rightarrow> nid_t \<Rightarrow> f2fs_sb_info" where
  "clear_linkable s w = s\<lparr>inodes := (inodes s)(w := (inodes s w)\<lparr>I_LINKABLE := False\<rparr>)\<rparr>"

text \<open>
  Lines 769 to 776: the moved inode loses its parent hint and takes over the
  encrypted-name mark of a replaced inode.
\<close>

definition rename_mark_old :: "f2fs_sb_info \<Rightarrow> nid_t \<Rightarrow> nid_t option \<Rightarrow> f2fs_sb_info" where
  "rename_mark_old s old_inode new_inode =
     s\<lparr>inodes := (inodes s)(old_inode := (inodes s old_inode)
         \<lparr>enc_name := (case new_inode of
                          None \<Rightarrow> enc_name (inodes s old_inode)
                        | Some n \<Rightarrow> enc_name (inodes s n) \<or> enc_name (inodes s old_inode)),
          lost_pino := True\<rparr>)\<rparr>"

text \<open>
  Lines 790 to 808: the ".." entry of a moved directory is repointed when the parents
  differ and no whiteout was made, the old parent loses a link, the lock is released.
\<close>

definition rename_finish ::
  "f2fs_sb_info \<Rightarrow> nid_t \<Rightarrow> nid_t \<Rightarrow> nid_t \<Rightarrow> nat option \<Rightarrow> bool \<Rightarrow>
   (errno + unit) \<times> f2fs_sb_info" where
  "rename_finish s old_dir new_dir old_inode old_dir_entry no_whiteout =
     (case old_dir_entry of
        None \<Rightarrow> (Inr (), f2fs_unlock_op s)
      | Some de \<Rightarrow>
          (let s1 = (if old_dir \<noteq> new_dir \<and> no_whiteout
                     then f2fs_set_link s old_inode de new_dir else s)
           in (Inr (), f2fs_unlock_op (drop_nlink s1 old_dir))))"

text \<open>
  Lines 769 to 808: the source entry is deleted, and a whiteout is linked under the
  source name; when that insertion fails the code jumps to \<open>put_out_dir\<close>.
\<close>

definition rename_fixup ::
  "f2fs_env \<Rightarrow> f2fs_sb_info \<Rightarrow> nid_t \<Rightarrow> dentry \<Rightarrow> nid_t \<Rightarrow> nid_t \<Rightarrow> nid_t option \<Rightarrow>
   nat \<Rightarrow> nat option \<Rightarrow> nid_t option \<Rightarrow> (errno + unit) \<times> f2fs_sb_info" where
  "rename_fixup env s old_dir old_dentry new_dir old_inode new_inode old_entry old_dir_entry
       whiteout =
     (let s1 = rename_mark_old s old_inode new_inode;
          s2 = f2fs_delete_entry s1 old_dir old_entry None
      in case whiteout of
           None \<Rightarrow> rename_finish s2 old_dir new_dir old_inode old_dir_entry True
         | Some w \<Rightarrow>
             (case f2fs_add_link env (set_linkable s2 w) old_dentry w of
                (Inl e, s3) \<Rightarrow> (Inl e, put_out_dir s3 (Some w))
              | (Inr u, s3) \<Rightarrow>
                  rename_finish (iput (clear_linkable s3 w) w) old_dir new_dir old_inode
                    old_dir_entry False))"

text \<open>
  Lines 712 to 767: the target.  With an inode at the destination its entry is
  repointed to the moved inode and its link count dropped; without one an entry is
  inserted.  When \<open>update_dent_inode\<close> fails, \<open>err\<close> still holds the 0 that
  \<open>acquire_orphan_inode\<close> returned, and that is what \<open>put_out_dir\<close> returns.
\<close>

definition rename_target ::
  "f2fs_env \<Rightarrow> f2fs_sb_info \<Rightarrow> nid_t \<Rightarrow> dentry \<Rightarrow> nid_t \<Rightarrow> dentry \<Rightarrow> nid_t \<Rightarrow>
   nat \<Rightarrow> nat option \<Rightarrow> nid_t option \<Rightarrow> (errno + unit) \<times> f2fs_sb_info" where
  "rename_target env s old_dir old_dentry new_dir new_dentry old_inode old_entry old_dir_entry
       whiteout =
     (case d_inode new_dentry of
        Some new_inode \<Rightarrow>
          (case (if old_dir_entry \<noteq> None then f2fs_empty_dir s new_inode else (True, s)) of
             (False, s1) \<Rightarrow> (Inl ENOTEMPTY, out_whiteout s1 whiteout)
           | (True, s1) \<Rightarrow>
               (case f2fs_find_entry s1 new_dir (d_name new_dentry) 0 of
                  (None, s2) \<Rightarrow> (Inl ENOENT, out_whiteout s2 whiteout)
                | (Some new_entry, s2) \<Rightarrow>
                    (case acquire_orphan_inode (f2fs_lock_op s2) of
                       (Inl e, s3) \<Rightarrow> (Inl e, put_out_dir s3 whiteout)
                     | (Inr u, s3) \<Rightarrow>
                         (case update_dent_inode env s3 old_inode new_inode (d_name new_dentry) of
                            (Inl e, s4) \<Rightarrow>
                              (Inr (), put_out_dir (release_orphan_inode s4) whiteout)
                          | (Inr u, s4) \<Rightarrow>
                              (let s5 = f2fs_set_link s4 new_dir new_entry old_inode;
                                   s6 = (if old_dir_entry \<noteq> None then drop_nlink s5 new_inode
                                         else s5);
                                   s7 = drop_nlink s6 new_inode;
                                   s8 = (if i_nlink (inodes s7 new_inode) = 0
                                         then add_orphan_inode s7 new_inode
                                         else release_orphan_inode s7)
                               in rename_fixup env s8 old_dir old_dentry new_dir old_inode
                                    (Some new_inode) old_entry old_dir_entry whiteout)))))
      | None \<Rightarrow>
          (case f2fs_add_link env (f2fs_lock_op s) new_dentry old_inode of
             (Inl e, s1) \<Rightarrow> (Inl e, out_whiteout (f2fs_unlock_op s1) whiteout)
           | (Inr u, s1) \<Rightarrow>
               (let s2 = (if old_dir_entry \<noteq> None then inc_nlink s1 new_dir else s1)
                in rename_fixup env s2 old_dir old_dentry new_dir old_inode None old_entry
                     old_dir_entry whiteout)))"

text \<open>
  \<open>f2fs_rename\<close>; \<open>rename_whiteout\<close> is the flag \<open>RENAME_WHITEOUT\<close>.  The VFS passes a
  source dentry with an inode.  Without one the code faults where it first reads the
  inode: in the policy check, which is handed the inode when the directories differ
  and the new one is encrypted, or else at \<open>S_ISDIR(old_inode->i_mode)\<close>, which is
  reached only when the source name was found; an absent name is \<open>ENOENT\<close> before that.
\<close>

definition f2fs_rename ::
  "f2fs_env \<Rightarrow> f2fs_sb_info \<Rightarrow> nid_t \<Rightarrow> dentry \<Rightarrow> nid_t \<Rightarrow> dentry \<Rightarrow> bool \<Rightarrow>
   (errno + unit) \<times> f2fs_sb_info" where
  "f2fs_rename env s old_dir old_dentry new_dir new_dentry rename_whiteout =
     (case d_inode old_dentry of
        None \<Rightarrow>
          if old_dir \<noteq> new_dir \<and> encrypted_inode (inodes s new_dir) then (Inl OOPS, s)
          else
            (case f2fs_find_entry s old_dir (d_name old_dentry) 0 of
               (None, s1) \<Rightarrow> (Inl ENOENT, s1)
             | (Some old_entry, s1) \<Rightarrow> (Inl OOPS, s1))
      | Some old_inode \<Rightarrow>
          if old_dir \<noteq> new_dir \<and> encrypted_inode (inodes s new_dir) \<and>
             \<not> context_consistent env new_dir old_inode
          then (Inl EPERM, s)
          else
            (case f2fs_find_entry s old_dir (d_name old_dentry) 0 of
               (None, s1) \<Rightarrow> (Inl ENOENT, s1)
             | (Some old_entry, s1) \<Rightarrow>
                 (case (if S_ISDIR s1 old_inode then f2fs_parent_dir s1 old_inode
                        else (None, s1)) of
                    (old_dir_entry, s2) \<Rightarrow>
                      if S_ISDIR s1 old_inode \<and> old_dir_entry = None then (Inl EIO, s2)
                      else if rename_whiteout then
                        (case f2fs_create_whiteout env s2 old_dir of
                           (Inl e, s3) \<Rightarrow> (Inl e, s3)
                         | (Inr w, s3) \<Rightarrow>
                             rename_target env s3 old_dir old_dentry new_dir new_dentry
                               old_inode old_entry old_dir_entry (Some w))
                      else
                        rename_target env s2 old_dir old_dentry new_dir new_dentry
                          old_inode old_entry old_dir_entry None)))"

section \<open>Cross rename\<close>

text \<open>
  Modelled from the spec: the ceiling of a link count, \<open>F2FS_LINK_MAX\<close>, a constant of
  f2fs.h (\<open>0xffffffff\<close> there), which is not under src/.
\<close>

definition F2FS_LINK_MAX :: "32 word" where
  "F2FS_LINK_MAX = 0xffffffff"

definition set_enc_name :: "f2fs_sb_info \<Rightarrow> nid_t \<Rightarrow> f2fs_sb_info" where
  "set_enc_name s ino = s\<lparr>inodes := (inodes s)(ino := (inodes s ino)\<lparr>enc_name := True\<rparr>)\<rparr>"

definition file_lost_pino :: "f2fs_sb_info \<Rightarrow> nid_t \<Rightarrow> f2fs_sb_info" where
  "file_lost_pino s ino = s\<lparr>inodes := (inodes s)(ino := (inodes s ino)\<lparr>lost_pino := True\<rparr>)\<rparr>"

text \<open>\<open>if (nlink) { if (nlink < 0) drop_nlink(dir); else inc_nlink(dir); }\<close>\<close>

definition adjust_nlink :: "f2fs_sb_info \<Rightarrow> nid_t \<Rightarrow> int \<Rightarrow> f2fs_sb_info" where
  "adjust_nlink s dir nlink =
     (if nlink = 0 then s else if nlink < 0 then drop_nlink s dir else inc_nlink s dir)"

text \<open>Lines 896 to 964 of \<open>f2fs_cross_rename\<close>: the exchange under the lock.\<close>

definition cross_rename_commit ::
  "f2fs_env \<Rightarrow> f2fs_sb_info \<Rightarrow> nid_t \<Rightarrow> dentry \<Rightarrow> nid_t \<Rightarrow> dentry \<Rightarrow> nid_t \<Rightarrow> nid_t \<Rightarrow>
   nat \<Rightarrow> nat \<Rightarrow> nat option \<Rightarrow> nat option \<Rightarrow> int \<Rightarrow> int \<Rightarrow> (errno + unit) \<times> f2fs_sb_info" where
  "cross_rename_commit env s old_dir old_dentry new_dir new_dentry old_inode new_inode
       old_entry new_entry old_dir_entry new_dir_entry old_nlink new_nlink =
     (case update_dent_inode env (f2fs_lock_op s) old_inode new_inode (d_name new_dentry) of
        (Inl e, s1) \<Rightarrow> (Inl e, f2fs_unlock_op s1)
      | (Inr u, s1) \<Rightarrow>
          (let s2 = (if enc_name (inodes s1 new_inode) then set_enc_name s1 old_inode else s1)
           in case update_dent_inode env s2 new_inode old_inode (d_name old_dentry) of
                (Inl e, s3) \<Rightarrow>
                  (Inl e, f2fs_unlock_op
                     (snd (update_dent_inode env s3 old_inode old_inode (d_name old_dentry))))
              | (Inr u, s3) \<Rightarrow>
                  (let s4 = (if enc_name (inodes s3 old_inode) then set_enc_name s3 new_inode
                             else s3);
                       s5 = (case old_dir_entry of None \<Rightarrow> s4
                             | Some de \<Rightarrow> f2fs_set_link s4 old_inode de new_dir);
                       s6 = (case new_dir_entry of None \<Rightarrow> s5
                             | Some de \<Rightarrow> f2fs_set_link s5 new_inode de old_dir);
                       s7 = f2fs_set_link s6 old_dir old_entry new_inode;
                       s8 = adjust_nlink (file_lost_pino s7 old_inode) old_dir old_nlink;
                       s9 = f2fs_set_link s8 new_dir new_entry old_inode;
                       s10 = adjust_nlink (file_lost_pino s9 new_inode) new_dir new_nlink
                   in (Inr (), f2fs_unlock_op s10))))"

text \<open>
  \<open>f2fs_cross_rename\<close>.  Both dentries carry an inode (an exchange needs two existing
  names); without one the code dereferences NULL.
\<close>

definition f2fs_cross_rename ::
  "f2fs_env \<Rightarrow> f2fs_sb_info \<Rightarrow> nid_t \<Rightarrow> dentry \<Rightarrow> nid_t \<Rightarrow> dentry \<Rightarrow>
   (errno + unit) \<times> f2fs_sb_info" where
  "f2fs_cross_rename env s old_dir old_dentry new_dir new_dentry =
     (case (d_inode old_dentry, d_inode new_dentry) of
        (Some old_inode, Some new_inode) \<Rightarrow>
          if (encrypted_inode (inodes s old_dir) \<or> encrypted_inode (inodes s new_dir)) \<and>
             old_dir \<noteq> new_dir \<and>
             \<not> (context_consistent env new_dir old_inode \<and>
                context_consistent env old_dir new_inode)
          then (Inl EPERM, s)
          else
            (case f2fs_find_entry s old_dir (d_name old_dentry) 0 of
               (None, s1) \<Rightarrow> (Inl ENOENT, s1)
             | (Some old_entry, s1) \<Rightarrow>
                 (case f2fs_find_entry s1 new_dir (d_name new_dentry) 0 of
                    (None, s2) \<Rightarrow> (Inl ENOENT, s2)
                  | (Some new_entry, s2) \<Rightarrow>
                      (case (if old_dir \<noteq> new_dir \<and> S_ISDIR s2 old_inode
                             then f2fs_parent_dir s2 old_inode else (None, s2)) of
                         (old_dir_entry, s3) \<Rightarrow>
                           if old_dir \<noteq> new_dir \<and> S_ISDIR s2 old_inode \<and> old_dir_entry = None
                           then (Inl EIO, s3)
                           else
                             (case (if old_dir \<noteq> new_dir \<and> S_ISDIR s3 new_inode
                                    then f2fs_parent_dir s3 new_inode else (None, s3)) of
                                (new_dir_entry, s4) \<Rightarrow>
                                  if old_dir \<noteq> new_dir \<and> S_ISDIR s3 new_inode \<and>
                                     new_dir_entry = None
                                  then (Inl EIO, s4)
                                  else if (old_dir_entry = None \<or> new_dir_entry = None) \<and>
                                          old_dir_entry \<noteq> new_dir_entry
                                  then
                                    (let old_nlink = (if old_dir_entry \<noteq> None then - 1 else 1);
                                         new_nlink = - old_nlink
                                     in if (old_nlink > 0 \<and>
                                            i_nlink (inodes s4 old_inode) \<ge> F2FS_LINK_MAX) \<or>
                                           (new_nlink > 0 \<and>
                                            i_nlink (inodes s4 new_inode) \<ge> F2FS_LINK_MAX)
                                        then (Inl EMLINK, s4)
                                        else cross_rename_commit env s4 old_dir old_dentry new_dir
                                               new_dentry old_inode new_inode old_entry new_entry
                                               old_dir_entry new_dir_entry old_nlink new_nlink)
                                  else cross_rename_commit env s4 old_dir old_dentry new_dir
                                         new_dentry old_inode new_inode old_entry new_entry
                                         old_dir_entry new_dir_entry 0 0))))
      | other \<Rightarrow> (Inl OOPS, s))"

section \<open>Comparing the state before and after a call\<close>







section \<open>A small file system for concrete runs\<close>

text \<open>
  Directory 1 is the root; it holds the file \<open>a\<close> (inode 2) and the empty directory \<open>d\<close>
  (inode 3).  Nothing fails in \<open>env_ok\<close>; its cipher reverses the name.
\<close>

definition file_inode :: inode where
  "file_inode = \<lparr>i_mode = S_IFREG, i_nlink = 1, I_LINKABLE = False, FI_INC_LINK = False,
     FI_INLINE_DOTS = False, FI_INLINE_DATA = False, FI_INLINE_DENTRY = False,
     encrypted_inode = False, enc_name = False, lost_pino = False, whiteout_dev = False\<rparr>"

definition dir_inode :: inode where
  "dir_inode = file_inode\<lparr>i_mode := S_IFDIR, i_nlink := 2\<rparr>"

definition sb_example :: f2fs_sb_info where
  "sb_example = \<lparr>
     dentries = (\<lambda>ino. [])
       (1 := [Some (''.'', 1), Some (''..'', 1), Some (''a'', 2), Some (''d'', 3)],
        3 := [Some (''.'', 3), Some (''..'', 1)]),
     inodes = (\<lambda>ino. file_inode)(1 := dir_inode\<lparr>i_nlink := 3\<rparr>, 3 := dir_inode),
     icache = [1, 2, 3],
     free_nids = [10, 11],
     ino_num = 0,
     max_orphans = 4,
     orphans = [],
     cp_rwsem = 0,
     s_blocksize = 4096,
     symlink_page = (\<lambda>ino. None),
     trace = []\<rparr>"

definition env_ok :: f2fs_env where
  "env_ok = \<lparr>
     add_link_err = (\<lambda>dir name. None),
     update_dent_err = (\<lambda>inode to. None),
     do_tmpfile_err = None,
     new_inode_ok = True,
     context_consistent = (\<lambda>parent child. True),
     may_encrypt = (\<lambda>m. m = S_IFREG \<or> m = S_IFDIR \<or> m = S_IFLNK),
     may_inline_data = (\<lambda>m. False),
     may_inline_dentry = (\<lambda>m. False),
     iget_err = (\<lambda>ino. None),
     dir_nocase_xattr = (\<lambda>ino. False),
     encryption_info_err = (\<lambda>ino. None),
     crypto_alloc_err = None,
     fname_usr_to_disk = (\<lambda>ino name. Inr (rev name)),
     kzalloc_ok = True,
     page_symlink_err = None\<rparr>"

definition mk_dentry :: "nid_t \<Rightarrow> string \<Rightarrow> nid_t option \<Rightarrow> dentry" where
  "mk_dentry parent name inode =
     \<lparr>d_name = name, d_inode = inode, d_parent = parent, d_op = False, d_parent_op = False\<rparr>"

text \<open>
  \<open>sb_dots\<close> adds directory 5, which holds one file and still lacks its dot entries;
  in \<open>env_no_dotdot\<close> the insertion of ".." fails.
\<close>

definition sb_dots :: f2fs_sb_info where
  "sb_dots = sb_example\<lparr>
     dentries := (dentries sb_example)(5 := [Some (''f'', 6)]),
     inodes := (inodes sb_example)(5 := dir_inode\<lparr>FI_INLINE_DOTS := True\<rparr>)\<rparr>"

definition env_no_dotdot :: f2fs_env where
  "env_no_dotdot = env_ok\<lparr>add_link_err := (\<lambda>dir name. if name = ''..'' then Some ENOSPC else None)\<rparr>"

text \<open>
  In \<open>sb_enc\<close> the root directory is encrypted; the cipher of \<open>env_big\<close> returns 4095
  bytes, so that the container (4097 bytes) exceeds the block size 4096.
\<close>

definition sb_enc :: f2fs_sb_info where
  "sb_enc = sb_example\<lparr>
     inodes := (inodes sb_example)(1 := dir_inode\<lparr>i_nlink := 3, encrypted_inode := True\<rparr>)\<rparr>"

definition env_big :: f2fs_env where
  "env_big = env_ok\<lparr>fname_usr_to_disk := (\<lambda>ino name. Inr (replicate 4095 CHR ''x''))\<rparr>"

text \<open>
  \<open>sb_files\<close> adds the file \<open>b\<close> (inode 4) to the root.  In \<open>env_no_whiteout_link\<close> no
  entry named \<open>a\<close> can be inserted; in \<open>env_no_dent_update\<close> the name metadata of an
  inode cannot be rewritten.
\<close>

definition sb_files :: f2fs_sb_info where
  "sb_files = sb_example\<lparr>
     dentries := (dentries sb_example)
       (1 := [Some (''.'', 1), Some (''..'', 1), Some (''a'', 2), Some (''d'', 3), Some (''b'', 4)]),
     icache := [1, 2, 3, 4]\<rparr>"

definition env_no_whiteout_link :: f2fs_env where
  "env_no_whiteout_link =
     env_ok\<lparr>add_link_err := (\<lambda>dir name. if name = ''a'' then Some ENOSPC else None)\<rparr>"

definition env_no_dent_update :: f2fs_env where
  "env_no_dent_update = env_ok\<lparr>update_dent_err := (\<lambda>inode to. Some EIO)\<rparr>"

text \<open>
  Further failures of a rename.  In \<open>sb_enc_d\<close> the directory \<open>d\<close> is encrypted, and in
  \<open>env_policy_mismatch\<close> no inode has the policy of a directory; in \<open>sb_no_dotdot\<close> the
  directory \<open>d\<close> has lost its ".." entry; in \<open>sb_dirs\<close> the root holds a second
  directory \<open>g\<close> (inode 8) with the file \<open>f\<close> (inode 9) in it; in \<open>env_no_tmpfile\<close> the
  metadata of a nameless inode cannot be written.
\<close>

definition sb_enc_d :: f2fs_sb_info where
  "sb_enc_d = sb_example\<lparr>
     inodes := (inodes sb_example)(3 := dir_inode\<lparr>encrypted_inode := True\<rparr>)\<rparr>"

definition env_policy_mismatch :: f2fs_env where
  "env_policy_mismatch = env_ok\<lparr>context_consistent := (\<lambda>parent child. False)\<rparr>"

definition sb_no_dotdot :: f2fs_sb_info where
  "sb_no_dotdot = sb_example\<lparr>dentries := (dentries sb_example)(3 := [Some (''.'', 3)])\<rparr>"

definition sb_dirs :: f2fs_sb_info where
  "sb_dirs = sb_example\<lparr>
     dentries := (dentries sb_example)
       (1 := [Some (''.'', 1), Some (''..'', 1), Some (''a'', 2), Some (''d'', 3), Some (''g'', 8)],
        8 := [Some (''.'', 8), Some (''..'', 1), Some (''f'', 9)]),
     inodes := (inodes sb_example)(1 := dir_inode\<lparr>i_nlink := 4\<rparr>, 8 := dir_inode),
     icache := [1, 2, 3, 8, 9]\<rparr>"

definition env_no_tmpfile :: f2fs_env where
  "env_no_tmpfile = env_ok\<lparr>do_tmpfile_err := Some EIO\<rparr>"

text \<open>
  In \<open>sb_cross\<close> the root has reached the ceiling of its link count, and the
  directory \<open>d\<close> holds the directory \<open>e\<close> (inode 7).
\<close>

definition sb_cross :: f2fs_sb_info where
  "sb_cross = sb_example\<lparr>
     dentries := (dentries sb_example)
       (3 := [Some (''.'', 3), Some (''..'', 1), Some (''e'', 7)],
        7 := [Some (''.'', 7), Some (''..'', 3)]),
     inodes := (inodes sb_example)
       (1 := dir_inode\<lparr>i_nlink := 0xffffffff\<rparr>, 3 := dir_inode\<lparr>i_nlink := 3\<rparr>, 7 := dir_inode),
     icache := [1, 2, 3, 7]\<rparr>"

section \<open>Verification: the name codec\<close>

lemma striptail_aux_strip:
  "n \<le> length name \<Longrightarrow> f2fs_striptail_len_aux n name = length (strip_dots (take n name))"
proof (induction n)
  case 0
  then show ?case by (simp add: strip_dots_def)
next
  case (Suc n)
  then have n: "n < length name" by simp
  then have t: "take (Suc n) name = take n name @ [name ! n]"
    by (simp add: take_Suc_conv_app_nth)
  show ?case using Suc n by (simp add: t strip_dots_def)
qed

lemma strip_dots_length_le: "length (strip_dots s) \<le> length s"
  by (simp add: strip_dots_def length_dropWhile_le[of _ "rev s", simplified])

lemma strip_dots_prefix: "strip_dots s = take (length (strip_dots s)) s"
proof -
  have "rev s = takeWhile (\<lambda>c. c = CHR ''.'') (rev s) @ dropWhile (\<lambda>c. c = CHR ''.'') (rev s)"
    by simp
  then have "s = strip_dots s @ rev (takeWhile (\<lambda>c. c = CHR ''.'') (rev s))"
    unfolding strip_dots_def by (metis rev_append rev_rev_ident)
  then show ?thesis by (metis append_eq_conv_conj)
qed

text \<open>
  On strings without a NUL byte in the compared prefix, \<open>strncasecmp\<close> returns 0 exactly
  when the prefixes agree after case folding.
\<close>

lemma strncasecmp_zero_iff:
  "n \<le> length s1 \<Longrightarrow> n \<le> length s2 \<Longrightarrow> CHR 0x00 \<notin> set (take n s1) \<Longrightarrow>
   CHR 0x00 \<notin> set (take n s2) \<Longrightarrow>
   (strncasecmp s1 s2 n = 0) = (map tolower (take n s1) = map tolower (take n s2))"
proof (induction s1 s2 n rule: strncasecmp.induct)
  case (1 s1 s2)
  then show ?case by simp
next
  case (2 s1 s2 len)
  from "2.prems" obtain c1 r1 where s1: "s1 = c1 # r1" by (cases s1) auto
  from "2.prems" obtain c2 r2 where s2: "s2 = c2 # r2" by (cases s2) auto
  from "2.prems" have nz: "c1 \<noteq> CHR 0x00" "c2 \<noteq> CHR 0x00" by (auto simp: s1 s2)
  have diff: "tolower c1 \<noteq> tolower c2 \<Longrightarrow>
      int (of_char (tolower c1)) - int (of_char (tolower c2)) \<noteq> 0"
    by simp
  show ?case
  proof (cases "c1 = c2")
    case True
    with "2.IH"(1) "2.prems" nz show ?thesis by (simp add: s1 s2 first_byte_def)
  next
    case False
    show ?thesis
    proof (cases "tolower c1 = tolower c2")
      case True
      with "2.IH"(2) "2.prems" nz False show ?thesis by (simp add: s1 s2 first_byte_def)
    next
      case F2: False
      with nz False diff show ?thesis by (simp add: s1 s2 first_byte_def)
    qed
  qed
qed

lemma f2fs_d_compare_spec:
  assumes "CHR 0x00 \<notin> set a" and "CHR 0x00 \<notin> set b"
  shows "(f2fs_d_compare (length b) b a = 0) = names_equal_spec a b"
proof -
  let ?n = "length (strip_dots a)"
  have la: "f2fs_striptail_len a = ?n"
    by (simp add: f2fs_striptail_len_def striptail_aux_strip)
  have lb: "f2fs_striptail_len_aux (length b) b = length (strip_dots b)"
    by (simp add: striptail_aux_strip)
  show ?thesis
  proof (cases "?n = length (strip_dots b)")
    case False
    then show ?thesis by (simp add: f2fs_d_compare_def la lb names_equal_spec_def Let_def)
  next
    case True
    have na: "?n \<le> length a" by (rule strip_dots_length_le)
    have nb: "?n \<le> length b" using True strip_dots_length_le[of b] by simp
    have za: "CHR 0x00 \<notin> set (take ?n a)" using assms(1) by (auto dest: in_set_takeD)
    have zb: "CHR 0x00 \<notin> set (take ?n b)" using assms(2) by (auto dest: in_set_takeD)
    show ?thesis
      using True strncasecmp_zero_iff[OF na nb za zb]
      by (simp add: f2fs_d_compare_def la lb names_equal_spec_def Let_def)
  qed
qed

lemma foo_names_equal:
  "f2fs_d_compare 3 ''FOO'' ''foo'' = 0 \<and> f2fs_d_compare 3 ''foo'' ''FOO'' = 0 \<and>
   f2fs_d_compare 4 ''foo.'' ''FOO'' = 0 \<and> f2fs_d_compare 3 ''FOO'' ''foo.'' = 0 \<and>
   f2fs_d_compare 4 ''foo.'' ''foo'' = 0 \<and> f2fs_d_compare 3 ''foo'' ''foo.'' = 0"
  by code_simp

text \<open>
  Claim C6.  For all names \<open>a\<close> and \<open>b\<close> (byte strings without a NUL byte, as every
  name of a dentry is), \<open>f2fs_d_compare\<close> judges them equal (returns 0) if and only if
  their lengths after stripping all trailing dots are equal and the bytes agree over
  that stripped length after case folding; a name of dots only strips to length 0; and
  \<open>FOO\<close>, \<open>foo\<close> and \<open>foo.\<close> are mutually equal.
\<close>

theorem f2fs_d_compare_equal_iff:
  assumes "CHR 0x00 \<notin> set a" and "CHR 0x00 \<notin> set b"
  shows "((f2fs_d_compare (length b) b a = 0) =
            (length (strip_dots a) = length (strip_dots b) \<and>
             map tolower (strip_dots a) = map tolower (strip_dots b))) \<and>
         f2fs_striptail_len a = length (strip_dots a) \<and>
         f2fs_striptail_len (replicate k CHR ''.'') = 0 \<and>
         f2fs_d_compare 3 ''FOO'' ''foo'' = 0 \<and> f2fs_d_compare 3 ''foo'' ''FOO'' = 0 \<and>
         f2fs_d_compare 4 ''foo.'' ''FOO'' = 0 \<and> f2fs_d_compare 3 ''FOO'' ''foo.'' = 0 \<and>
         f2fs_d_compare 4 ''foo.'' ''foo'' = 0 \<and> f2fs_d_compare 3 ''foo'' ''foo.'' = 0"
proof -
  have eq: "length (strip_dots a) = length (strip_dots b) \<Longrightarrow>
      take (length (strip_dots a)) b = strip_dots b"
    using strip_dots_prefix[of b] by simp
  have main: "(f2fs_d_compare (length b) b a = 0) =
            (length (strip_dots a) = length (strip_dots b) \<and>
             map tolower (strip_dots a) = map tolower (strip_dots b))"
    using f2fs_d_compare_spec[OF assms] strip_dots_prefix[of a] eq
    by (auto simp: names_equal_spec_def)
  have len: "f2fs_striptail_len a = length (strip_dots a)"
    by (simp add: f2fs_striptail_len_def striptail_aux_strip)
  have "strip_dots (replicate k CHR ''.'') = []"
    by (simp add: strip_dots_def)
  then have dots: "f2fs_striptail_len (replicate k CHR ''.'') = 0"
    by (simp add: f2fs_striptail_len_def striptail_aux_strip del: replicate.simps)
  from main len dots foo_names_equal show ?thesis by simp
qed

theorem f2fs_d_compare_equal_iff_witness:
  "CHR 0x00 \<notin> set ''foo..'' \<and> CHR 0x00 \<notin> set ''Foo'' \<and>
   f2fs_d_compare 3 ''Foo'' ''foo..'' = 0 \<and>
   strip_dots ''foo..'' = ''foo'' \<and> f2fs_striptail_len ''foo..'' = 3"
proof -
  have a: "CHR 0x00 \<notin> set ''foo..''" by simp
  have b: "CHR 0x00 \<notin> set ''Foo''" by simp
  have s1: "strip_dots ''foo..'' = ''foo''" by (simp add: strip_dots_def)
  have s2: "strip_dots ''Foo'' = ''Foo''" by (simp add: strip_dots_def)
  have f: "map tolower ''foo'' = map tolower ''Foo''" by code_simp
  from f2fs_d_compare_equal_iff[OF a b, of 0] s1 s2 f a b show ?thesis
    by (simp add: numeral_3_eq_3)
qed

section \<open>Verification: lookup\<close>

text \<open>
  Claim C10.  For every lookup of a name longer than \<open>F2FS_NAME_LEN\<close>, the result is
  the error name-too-long and the state is the one before the call.  Every read of a
  directory entry appends to the trace, so the unchanged state says that no directory
  was searched.
\<close>

theorem f2fs_lookup_name_too_long:
  "length (d_name dentry) > F2FS_NAME_LEN \<Longrightarrow>
   f2fs_lookup env s dir dentry flags = (Inl ENAMETOOLONG, s)"
  by (simp add: f2fs_lookup_def)

theorem f2fs_lookup_name_too_long_witness:
  "length (d_name (mk_dentry 1 (replicate 256 CHR ''x'') None)) > F2FS_NAME_LEN \<and>
   f2fs_lookup env_ok sb_example 1 (mk_dentry 1 (replicate 256 CHR ''x'') None) 0 =
     (Inl ENAMETOOLONG, sb_example) \<and>
   trace (snd (f2fs_lookup env_ok sb_example 1 (mk_dentry 1 ''a'' None) 0)) = [FindEntry 1 ''a'']"
proof -
  have h: "length (d_name (mk_dentry 1 (replicate 256 CHR ''x'') None)) > F2FS_NAME_LEN"
    by (simp add: mk_dentry_def F2FS_NAME_LEN_def)
  have t: "trace (snd (f2fs_lookup env_ok sb_example 1 (mk_dentry 1 ''a'' None) 0)) = [FindEntry 1 ''a'']"
    by (simp add: f2fs_lookup_def mk_dentry_def F2FS_NAME_LEN_def f2fs_find_entry_def
        record_event_def sb_example_def name_matches_def env_ok_def file_inode_def dir_inode_def S_ISDIR_def)
  from f2fs_lookup_name_too_long[OF h, of env_ok sb_example 1 0] h t show ?thesis by simp
qed

section \<open>Verification: removal\<close>

text \<open>
  Claim C4.  For every unlink: when the name is absent, the result is not-found and
  nothing but the search happened; when the name is present and no orphan slot can be
  reserved, the result is the reservation error, the lock was taken and released, and
  no entry, link count or registry field has changed; when the reservation succeeds,
  the lock is taken and the slot is reserved before the entry is removed.
\<close>

theorem f2fs_unlink_order:
  "(find_slot False (d_name dentry) (dentries s dir) = None \<longrightarrow>
      f2fs_unlink s dir dentry =
        (Inl ENOENT, s\<lparr>trace := trace s @ [FindEntry dir (d_name dentry)]\<rparr>)) \<and>
   (find_slot False (d_name dentry) (dentries s dir) = Some de \<and> max_orphans s \<le> ino_num s \<longrightarrow>
      f2fs_unlink s dir dentry =
        (Inl ENOSPC, s\<lparr>trace := trace s @ [FindEntry dir (d_name dentry), LockOp,
                                               AcquireOrphan (Some ENOSPC), UnlockOp]\<rparr>)) \<and>
   (find_slot False (d_name dentry) (dentries s dir) = Some de \<and> ino_num s < max_orphans s \<longrightarrow>
      f2fs_unlink s dir dentry =
        (Inr (), s\<lparr>dentries := (dentries s)(dir := (dentries s dir)[de := None]),
                    ino_num := ino_num s + 1,
                    trace := trace s @ [FindEntry dir (d_name dentry), LockOp,
                                        AcquireOrphan None, DeleteEntry dir de (d_inode dentry),
                                        UnlockOp]\<rparr>))"
  by (simp add: f2fs_unlink_def f2fs_find_entry_def acquire_orphan_inode_def f2fs_lock_op_def
      f2fs_unlock_op_def f2fs_delete_entry_def record_event_def)

lemma find_a: "find_slot False ''a'' (dentries sb_example 1) = Some 2"
  by (simp add: sb_example_def name_matches_def)

lemma find_zz: "find_slot False ''zz'' (dentries sb_example 1) = None"
  by (simp add: sb_example_def name_matches_def)

theorem f2fs_unlink_order_witness:
  "find_slot False ''zz'' (dentries sb_example 1) = None \<and>
   f2fs_unlink sb_example 1 (mk_dentry 1 ''zz'' None) =
     (Inl ENOENT, sb_example\<lparr>trace := [FindEntry 1 ''zz'']\<rparr>) \<and>
   find_slot False ''a'' (dentries (sb_example\<lparr>ino_num := 4\<rparr>) 1) = Some 2 \<and>
   max_orphans (sb_example\<lparr>ino_num := 4\<rparr>) \<le> ino_num (sb_example\<lparr>ino_num := 4\<rparr>) \<and>
   f2fs_unlink (sb_example\<lparr>ino_num := 4\<rparr>) 1 (mk_dentry 1 ''a'' (Some 2)) =
     (Inl ENOSPC, sb_example\<lparr>ino_num := 4,
        trace := [FindEntry 1 ''a'', LockOp, AcquireOrphan (Some ENOSPC), UnlockOp]\<rparr>) \<and>
   ino_num sb_example < max_orphans sb_example \<and>
   fst (f2fs_unlink sb_example 1 (mk_dentry 1 ''a'' (Some 2))) = Inr () \<and>
   dentries (snd (f2fs_unlink sb_example 1 (mk_dentry 1 ''a'' (Some 2)))) 1 =
     [Some (''.'', 1), Some (''..'', 1), None, Some (''d'', 3)] \<and>
   trace (snd (f2fs_unlink sb_example 1 (mk_dentry 1 ''a'' (Some 2)))) =
     [FindEntry 1 ''a'', LockOp, AcquireOrphan None, DeleteEntry 1 2 (Some 2), UnlockOp]"
proof -
  have n: "d_name (mk_dentry 1 ''zz'' None) = ''zz''" "d_name (mk_dentry 1 ''a'' (Some 2)) = ''a''"
    "d_inode (mk_dentry 1 ''a'' (Some 2)) = Some 2"
    by (simp_all add: mk_dentry_def)
  have h2: "find_slot False ''a'' (dentries (sb_example\<lparr>ino_num := 4\<rparr>) 1) = Some 2" 
    using find_a by simp
  have m: "max_orphans sb_example = 4" "ino_num sb_example = 0" "trace sb_example = []"
    by (simp_all add: sb_example_def)
  have d: "(dentries sb_example 1)[2 := None] = [Some (''.'', 1), Some (''..'', 1), None, Some (''d'', 3)]"
    by (simp add: sb_example_def)
  note u1 = f2fs_unlink_order[of "mk_dentry 1 ''zz'' None" sb_example 1 0, THEN conjunct1]
  note u2 = f2fs_unlink_order[of "mk_dentry 1 ''a'' (Some 2)" "sb_example\<lparr>ino_num := 4\<rparr>" 1 2,
      THEN conjunct2, THEN conjunct1]
  note u3 = f2fs_unlink_order[of "mk_dentry 1 ''a'' (Some 2)" sb_example 1 2,
      THEN conjunct2, THEN conjunct2]
  from u1 u2 u3 find_zz find_a h2 show ?thesis
    by (simp add: n m d)
qed

lemma not_dot_iff:
  "(\<not> list_all is_dot_slot ds) = (\<exists>m c. Some (m, c) \<in> set ds \<and> m \<noteq> ''.'' \<and> m \<noteq> ''..'')"
  by (induction ds) (auto simp: is_dot_slot_def split: option.splits)

text \<open>
  Claim C5.  For every rmdir of a dentry with an inode: when the directory holds an entry
  other than the two dot entries, the result is not-empty and the state is unchanged
  but for the trace of the emptiness check; when it holds none, rmdir is unlink.
\<close>

theorem f2fs_rmdir_not_empty:
  "d_inode dentry = Some inode \<Longrightarrow>
   ((\<exists>m c. Some (m, c) \<in> set (dentries s inode) \<and> m \<noteq> ''.'' \<and> m \<noteq> ''..'') \<longrightarrow>
      f2fs_rmdir s dir dentry = (Inl ENOTEMPTY, s\<lparr>trace := trace s @ [EmptyDir inode]\<rparr>)) \<and>
   (\<not> (\<exists>m c. Some (m, c) \<in> set (dentries s inode) \<and> m \<noteq> ''.'' \<and> m \<noteq> ''..'') \<longrightarrow>
      f2fs_rmdir s dir dentry = f2fs_unlink (s\<lparr>trace := trace s @ [EmptyDir inode]\<rparr>) dir dentry)"
  unfolding not_dot_iff[symmetric]
  by (simp add: f2fs_rmdir_def f2fs_empty_dir_def record_event_def)

theorem f2fs_rmdir_not_empty_witness:
  "Some (''a'', 2) \<in> set (dentries sb_example 1) \<and>
   f2fs_rmdir sb_example 1 (mk_dentry 1 ''root'' (Some 1)) =
     (Inl ENOTEMPTY, sb_example\<lparr>trace := [EmptyDir 1]\<rparr>) \<and>
   list_all is_dot_slot (dentries sb_example 3) \<and>
   f2fs_rmdir sb_example 1 (mk_dentry 1 ''d'' (Some 3)) =
     f2fs_unlink (sb_example\<lparr>trace := [EmptyDir 3]\<rparr>) 1 (mk_dentry 1 ''d'' (Some 3)) \<and>
   dentries (snd (f2fs_rmdir sb_example 1 (mk_dentry 1 ''d'' (Some 3)))) 1 =
     [Some (''.'', 1), Some (''..'', 1), Some (''a'', 2), None]"
proof -
  have i: "d_inode (mk_dentry 1 ''root'' (Some 1)) = Some 1"
    "d_inode (mk_dentry 1 ''d'' (Some 3)) = Some 3"
    by (simp_all add: mk_dentry_def)
  have a: "Some (''a'', 2) \<in> set (dentries sb_example 1)"
    by (simp add: sb_example_def)
  then have ne: "\<exists>m c. Some (m, c) \<in> set (dentries sb_example 1) \<and> m \<noteq> ''.'' \<and> m \<noteq> ''..''"
    by (intro exI[of _ "''a''"] exI[of _ 2]) simp
  have e: "list_all is_dot_slot (dentries sb_example 3)"
    by (simp add: sb_example_def is_dot_slot_def)
  then have e': "\<not> (\<exists>m c. Some (m, c) \<in> set (dentries sb_example 3) \<and> m \<noteq> ''.'' \<and> m \<noteq> ''..'')"
    using not_dot_iff[of "dentries sb_example 3"] by simp
  have t: "trace sb_example = []" by (simp add: sb_example_def)
  note r1 = f2fs_rmdir_not_empty[OF i(1), of sb_example 1, THEN conjunct1, rule_format, OF ne]
  note r2 = f2fs_rmdir_not_empty[OF i(2), of sb_example 1, THEN conjunct2, rule_format, OF e']
  have u: "dentries (snd (f2fs_unlink (sb_example\<lparr>trace := [EmptyDir 3]\<rparr>) 1
             (mk_dentry 1 ''d'' (Some 3)))) 1 =
     [Some (''.'', 1), Some (''..'', 1), Some (''a'', 2), None]"
    by (simp add: f2fs_unlink_def f2fs_find_entry_def acquire_orphan_inode_def f2fs_lock_op_def
      f2fs_unlock_op_def f2fs_delete_entry_def record_event_def sb_example_def mk_dentry_def
      name_matches_def)
  from r1 r2 a e u show ?thesis by (simp add: t)
qed

section \<open>Verification: dot-entry recovery\<close>

lemma find_slot_append:
  "find_slot False n (ds @ es) =
     (case find_slot False n ds of Some i \<Rightarrow> Some i
      | None \<Rightarrow> (case find_slot False n es of None \<Rightarrow> None
                   | Some j \<Rightarrow> Some (length ds + j)))"
proof (induction ds)
  case Nil
  then show ?case by (simp split: option.splits)
next
  case (Cons e ds)
  then show ?case
    by (cases e) (auto simp: name_matches_def split: option.splits if_splits)
qed

lemma find_slot_count: "(find_slot False n ds = None) = (count_name n ds = 0)"
proof (induction ds)
  case Nil
  then show ?case by (simp add: count_name_def)
next
  case (Cons e ds)
  then show ?case
    by (cases e) (auto simp: name_matches_def count_name_def slot_named_def)
qed

lemma count_name_append:
  "count_name n (ds @ es) = count_name n ds + count_name n es"
  by (simp add: count_name_def)

lemmas recover_defs = recover_dot_dentries_def f2fs_find_entry_def f2fs_add_link_raw_def
  f2fs_lock_op_def f2fs_unlock_op_def record_event_def clear_inline_dots_def

lemma recover_second_run:
  assumes "recover_dot_dentries env s dir pino = (Inr (), s1)"
  shows "recover_dot_dentries env' s1 dir pino' =
           (Inr (), s1\<lparr>trace := trace s1 @ [LockOp, FindEntry dir ''.'', FindEntry dir ''..'', UnlockOp]\<rparr>)"
  using assms
  by (auto simp: recover_defs find_slot_append name_matches_def Let_def split: option.splits if_splits prod.splits sum.splits)

lemma recover_partial_then_complete:
  assumes "recover_dot_dentries env s dir pino = (Inl e, s1)"
    and "add_link_err env' dir ''.'' = None" and "add_link_err env' dir ''..'' = None"
  shows "fst (recover_dot_dentries env' s1 dir pino) = Inr () \<and>
         dentries (snd (recover_dot_dentries env' s1 dir pino)) =
           dentries (snd (recover_dot_dentries env' s dir pino)) \<and>
         inodes (snd (recover_dot_dentries env' s1 dir pino)) =
           inodes (snd (recover_dot_dentries env' s dir pino))"
  using assms
  by (auto simp: recover_defs find_slot_append name_matches_def Let_def
           split: option.splits if_splits prod.splits sum.splits)

lemma recover_success_iff:
  assumes "recover_dot_dentries env s dir pino = (r, s1)"
  shows "(r = Inr ()) = (has_entry s1 dir ''.'' \<and> has_entry s1 dir ''..'')"
  using assms
  by (auto simp: recover_defs has_entry_def find_slot_append name_matches_def Let_def
           split: option.splits if_splits prod.splits sum.splits)

lemma recover_flag:
  assumes "recover_dot_dentries env s dir pino = (r, s1)"
  shows "FI_INLINE_DOTS (inodes s1 dir) = (FI_INLINE_DOTS (inodes s dir) \<and> r \<noteq> Inr ())"
    and "r \<noteq> Inr () \<longrightarrow> inodes s1 = inodes s"
  using assms
  by (auto simp: recover_defs Let_def
           split: option.splits if_splits prod.splits sum.splits)

lemma recover_no_duplicate:
  assumes "recover_dot_dentries env s dir pino = (r, s1)"
  shows "count_name n (dentries s1 dir) \<le> max 1 (count_name n (dentries s dir))"
  using assms
  by (auto simp: recover_defs Let_def count_name_append find_slot_count find_slot_append
       name_matches_def
           split: option.splits if_splits prod.splits sum.splits)
     (auto simp: count_name_def slot_named_def)

text \<open>
  Claim C9.  Take any run of the recovery, with result \<open>r\<close> and final state \<open>s1\<close>.
  If it succeeded, a second run (under any environment) succeeds, inserts nothing and
  changes nothing but the trace of its lock and its two searches.  If it failed, a run
  under an environment where both insertions succeed completes it, and ends with the
  same directories and inodes as one complete run from the start.  The run succeeds
  exactly when both dot entries are present at its end, the inline-dots flag is cleared
  exactly then, and a failed run leaves every inode, so the flag, unchanged.  No run
  raises the number of entries of a name above one.
\<close>

theorem recover_dot_dentries_idempotent:
  assumes "recover_dot_dentries env s dir pino = (r, s1)"
  shows
   "(r = Inr () \<longrightarrow>
       recover_dot_dentries env' s1 dir pino' =
         (Inr (), s1\<lparr>trace := trace s1 @ [LockOp, FindEntry dir ''.'', FindEntry dir ''..'',
                                             UnlockOp]\<rparr>)) \<and>
    (r \<noteq> Inr () \<and> add_link_err env' dir ''.'' = None \<and> add_link_err env' dir ''..'' = None \<longrightarrow>
       fst (recover_dot_dentries env' s1 dir pino) = Inr () \<and>
       dentries (snd (recover_dot_dentries env' s1 dir pino)) =
         dentries (snd (recover_dot_dentries env' s dir pino)) \<and>
       inodes (snd (recover_dot_dentries env' s1 dir pino)) =
         inodes (snd (recover_dot_dentries env' s dir pino))) \<and>
    ((r = Inr ()) = (has_entry s1 dir ''.'' \<and> has_entry s1 dir ''..'')) \<and>
    (FI_INLINE_DOTS (inodes s1 dir) = (FI_INLINE_DOTS (inodes s dir) \<and> r \<noteq> Inr ())) \<and>
    (r \<noteq> Inr () \<longrightarrow> inodes s1 = inodes s) \<and>
    count_name n (dentries s1 dir) \<le> max 1 (count_name n (dentries s dir))"
proof -
  have a: "r = Inr () \<longrightarrow>
       recover_dot_dentries env' s1 dir pino' =
         (Inr (), s1\<lparr>trace := trace s1 @ [LockOp, FindEntry dir ''.'', FindEntry dir ''..'',
                                             UnlockOp]\<rparr>)"
    using assms recover_second_run by blast
  have b: "r \<noteq> Inr () \<and> add_link_err env' dir ''.'' = None \<and> add_link_err env' dir ''..'' = None \<longrightarrow>
       fst (recover_dot_dentries env' s1 dir pino) = Inr () \<and>
       dentries (snd (recover_dot_dentries env' s1 dir pino)) =
         dentries (snd (recover_dot_dentries env' s dir pino)) \<and>
       inodes (snd (recover_dot_dentries env' s1 dir pino)) =
         inodes (snd (recover_dot_dentries env' s dir pino))"
  proof (cases r)
    case (Inl e)
    with assms recover_partial_then_complete[of env s dir pino e s1 env'] show ?thesis by blast
  next
    case (Inr u)
    then show ?thesis by simp
  qed
  from a b recover_success_iff[OF assms] recover_flag[OF assms] recover_no_duplicate[OF assms]
  show ?thesis by blast
qed

theorem recover_dot_dentries_idempotent_witness:
  "recover_dot_dentries env_no_dotdot sb_dots 5 1 =
     (Inl ENOSPC, sb_dots\<lparr>dentries := (dentries sb_dots)(5 := [Some (''f'', 6), Some (''.'', 5)]),
       trace := [LockOp, FindEntry 5 ''.'', AddLink 5 ''.'' 5 None, FindEntry 5 ''..'',
                 AddLink 5 ''..'' 1 (Some ENOSPC), UnlockOp]\<rparr>) \<and>
   FI_INLINE_DOTS (inodes (snd (recover_dot_dentries env_no_dotdot sb_dots 5 1)) 5) \<and>
   fst (recover_dot_dentries env_ok (snd (recover_dot_dentries env_no_dotdot sb_dots 5 1)) 5 1)
     = Inr () \<and>
   dentries (snd (recover_dot_dentries env_ok
       (snd (recover_dot_dentries env_no_dotdot sb_dots 5 1)) 5 1)) 5 =
     [Some (''f'', 6), Some (''.'', 5), Some (''..'', 1)] \<and>
   dentries (snd (recover_dot_dentries env_ok sb_dots 5 1)) 5 =
     [Some (''f'', 6), Some (''.'', 5), Some (''..'', 1)] \<and>
   fst (recover_dot_dentries env_no_dotdot (snd (recover_dot_dentries env_ok sb_dots 5 1)) 5 1)
     = Inr () \<and>
   dentries (snd (recover_dot_dentries env_no_dotdot
       (snd (recover_dot_dentries env_ok sb_dots 5 1)) 5 1)) 5 =
     [Some (''f'', 6), Some (''.'', 5), Some (''..'', 1)] \<and>
   \<not> FI_INLINE_DOTS (inodes (snd (recover_dot_dentries env_ok sb_dots 5 1)) 5)"
proof -
  let ?s1 = "snd (recover_dot_dentries env_no_dotdot sb_dots 5 1)"
  let ?s2 = "snd (recover_dot_dentries env_ok sb_dots 5 1)"
  have ok: "add_link_err env_ok 5 ''.'' = None" "add_link_err env_ok 5 ''..'' = None"
    by (simp_all add: env_ok_def)
  have flag0: "FI_INLINE_DOTS (inodes sb_dots 5)"
    by (simp add: sb_dots_def dir_inode_def file_inode_def)
  have run1: "recover_dot_dentries env_no_dotdot sb_dots 5 1 =
     (Inl ENOSPC, sb_dots\<lparr>dentries := (dentries sb_dots)(5 := [Some (''f'', 6), Some (''.'', 5)]),
       trace := [LockOp, FindEntry 5 ''.'', AddLink 5 ''.'' 5 None, FindEntry 5 ''..'',
                 AddLink 5 ''..'' 1 (Some ENOSPC), UnlockOp]\<rparr>)"
    by (simp add: recover_dot_dentries_def f2fs_find_entry_def f2fs_add_link_raw_def
        f2fs_lock_op_def f2fs_unlock_op_def record_event_def clear_inline_dots_def
        sb_dots_def sb_example_def env_no_dotdot_def env_ok_def name_matches_def)
  then have run1': "recover_dot_dentries env_no_dotdot sb_dots 5 1 = (Inl ENOSPC, ?s1)"
    by simp
  have run2: "recover_dot_dentries env_ok sb_dots 5 1 = (Inr (), ?s2)"
    by (simp add: recover_dot_dentries_def f2fs_find_entry_def f2fs_add_link_raw_def
        f2fs_lock_op_def f2fs_unlock_op_def record_event_def clear_inline_dots_def
        sb_dots_def sb_example_def env_ok_def name_matches_def)
  have d2: "dentries ?s2 5 = [Some (''f'', 6), Some (''.'', 5), Some (''..'', 1)]"
    by (simp add: recover_dot_dentries_def f2fs_find_entry_def f2fs_add_link_raw_def
        f2fs_lock_op_def f2fs_unlock_op_def record_event_def clear_inline_dots_def
        sb_dots_def sb_example_def env_ok_def name_matches_def)
  note partial = recover_dot_dentries_idempotent[OF run1', of env_ok 1 "''.''"]
  note full = recover_dot_dentries_idempotent[OF run2, of env_no_dotdot 1 "''.''"]
  from partial ok flag0 have p: "FI_INLINE_DOTS (inodes ?s1 5)"
    "fst (recover_dot_dentries env_ok ?s1 5 1) = Inr ()"
    "dentries (snd (recover_dot_dentries env_ok ?s1 5 1)) = dentries ?s2"
    by simp_all
  from full have f: "\<not> FI_INLINE_DOTS (inodes ?s2 5)"
    "recover_dot_dentries env_no_dotdot ?s2 5 1 =
       (Inr (), ?s2\<lparr>trace := trace ?s2 @ [LockOp, FindEntry 5 ''.'', FindEntry 5 ''..'', UnlockOp]\<rparr>)"
    by simp_all
  from f(2) have f2: "fst (recover_dot_dentries env_no_dotdot ?s2 5 1) = Inr ()"
    "dentries (snd (recover_dot_dentries env_no_dotdot ?s2 5 1)) = dentries ?s2"
    by simp_all
  show ?thesis
    using run1 p f(1) f2 d2 by simp
qed

section \<open>Verification: symbolic links\<close>

lemmas new_inode_defs = f2fs_new_inode_def alloc_nid_def insert_inode_locked_def
  alloc_nid_failed_def f2fs_lock_op_def f2fs_unlock_op_def record_event_def

lemma f2fs_new_inode_frame:
  assumes "f2fs_new_inode env s dir mode = (r, s1)"
  shows "symlink_page s1 = symlink_page s" and "s_blocksize s1 = s_blocksize s"
    and "r = Inl e \<Longrightarrow> inodes s1 = inodes s"
    and "r = Inr ino \<Longrightarrow> ino \<notin> set (icache s) \<and> (\<forall>j. j \<noteq> ino \<longrightarrow> inodes s1 j = inodes s j)"
  using assms
  by (auto simp: new_inode_defs Let_def split: if_splits list.splits option.splits)

lemma symlink_plain_too_long:
  "s_blocksize s < length symname \<Longrightarrow>
   f2fs_symlink env s dir dentry symname = (Inl ENAMETOOLONG, s)"
  by (simp add: f2fs_symlink_def)

lemmas symlink_defs = f2fs_symlink_def f2fs_add_link_def f2fs_add_link_raw_def
  handle_failed_inode_def alloc_nid_done_def alloc_nid_failed_def symlink_err_out_def
  page_symlink_def encrypted_symlink_data_len_def sizeof_encrypted_symlink_data_def
  f2fs_lock_op_def f2fs_unlock_op_def record_event_def cpu_to_le16_def

lemma symlink_encrypted_oversized:
  assumes enc: "encrypted_inode (inodes s dir)" and live: "dir \<in> set (icache s)"
    and big: "\<forall>i c. fname_usr_to_disk env i symname = Inr c \<longrightarrow> s_blocksize s < 2 + length c"
  shows "(\<exists>e. fst (f2fs_symlink env s dir dentry symname) = Inl e) \<and>
         symlink_page (snd (f2fs_symlink env s dir dentry symname)) = symlink_page s"
proof (cases "f2fs_new_inode env s dir S_IFLNK")
  case (Pair r s1)
  note f = f2fs_new_inode_frame[OF Pair]
  show ?thesis
  proof (cases r)
    case (Inl e)
    with Pair f show ?thesis by (simp add: f2fs_symlink_def Let_def)
  next
    case (Inr ino)
    with f(4) live have "ino \<noteq> dir" by auto
    with f(4) Inr enc have enc1: "encrypted_inode (inodes s1 dir)" by simp
    from big f(2) have big1: "\<And>c. fname_usr_to_disk env ino symname = Inr c \<Longrightarrow> s_blocksize s1 < 2 + length c"
      by simp
    show ?thesis
      using Pair Inr enc1 f(1,2) big1
      by (auto simp: symlink_defs Let_def split: option.splits sum.splits)
  qed
qed

lemma symlink_encrypted_enametoolong:
  assumes enc: "encrypted_inode (inodes s dir)" and live: "dir \<in> set (icache s)"
    and "length symname \<le> s_blocksize s" and "new_inode_ok env"
    and "free_nids s = ino # rest" and "ino \<notin> set (icache s)"
    and "add_link_err env (d_parent dentry) (d_name dentry) = None"
    and "encryption_info_err env ino = None" and "crypto_alloc_err env = None"
    and "fname_usr_to_disk env ino symname = Inr c" and "s_blocksize s < 2 + length c"
  shows "fst (f2fs_symlink env s dir dentry symname) = Inl ENAMETOOLONG \<and>
         symlink_page (snd (f2fs_symlink env s dir dentry symname)) = symlink_page s"
proof -
  from live assms(6) have "ino \<noteq> dir" by auto
  with assms show ?thesis
    by (simp add: symlink_defs f2fs_new_inode_def alloc_nid_def insert_inode_locked_def Let_def)
qed

lemma symlink_encrypted_stored_fits:
  assumes enc: "encrypted_inode (inodes s dir)" and live: "dir \<in> set (icache s)"
    and st: "symlink_page (snd (f2fs_symlink env s dir dentry symname)) i = Some b"
  shows "symlink_page s i = Some b \<or> length b < s_blocksize s"
proof (cases "f2fs_new_inode env s dir S_IFLNK")
  case (Pair r s1)
  note f = f2fs_new_inode_frame[OF Pair]
  show ?thesis
  proof (cases r)
    case (Inl e)
    with Pair f st show ?thesis by (simp add: f2fs_symlink_def Let_def split: if_splits)
  next
    case (Inr ino)
    with f(4) live have "ino \<noteq> dir" by auto
    with f(4) Inr enc have enc1: "encrypted_inode (inodes s1 dir)" by simp
    show ?thesis
      using Pair Inr enc1 f(1,2) st
      by (auto simp: symlink_defs Let_def split: option.splits sum.splits if_splits)
  qed
qed

text \<open>
  Claim C8.  For every symlink creation: (1) a target longer than the block size is
  rejected with name-too-long and the state is the one before the call, so no inode was
  created.  In an encrypted directory (a live inode): (2) when every container the cipher
  can produce for the target exceeds the block size, the call fails and stores nothing;
  (3) when the steps before the size check succeed and the container exceeds the block
  size, the error is name-too-long and nothing is stored; (4) in every run, whatever was
  stored is shorter than the block size.  The container of a ciphertext \<open>c\<close> has
  \<open>2 + length c\<close> bytes.
\<close>

theorem f2fs_symlink_name_too_long:
  "(s_blocksize s < length symname \<longrightarrow>
      f2fs_symlink env s dir dentry symname = (Inl ENAMETOOLONG, s)) \<and>
   (encrypted_inode (inodes s dir) \<and> dir \<in> set (icache s) \<and>
    (\<forall>i c. fname_usr_to_disk env i symname = Inr c \<longrightarrow> s_blocksize s < 2 + length c) \<longrightarrow>
      (\<exists>e. fst (f2fs_symlink env s dir dentry symname) = Inl e) \<and>
      symlink_page (snd (f2fs_symlink env s dir dentry symname)) = symlink_page s) \<and>
   (encrypted_inode (inodes s dir) \<and> dir \<in> set (icache s) \<and>
    length symname \<le> s_blocksize s \<and> new_inode_ok env \<and>
    free_nids s = ino # rest \<and> ino \<notin> set (icache s) \<and>
    add_link_err env (d_parent dentry) (d_name dentry) = None \<and>
    encryption_info_err env ino = None \<and> crypto_alloc_err env = None \<and>
    fname_usr_to_disk env ino symname = Inr c \<and> s_blocksize s < 2 + length c \<longrightarrow>
      fst (f2fs_symlink env s dir dentry symname) = Inl ENAMETOOLONG \<and>
      symlink_page (snd (f2fs_symlink env s dir dentry symname)) = symlink_page s) \<and>
   (encrypted_inode (inodes s dir) \<and> dir \<in> set (icache s) \<and>
    symlink_page (snd (f2fs_symlink env s dir dentry symname)) i = Some b \<longrightarrow>
      symlink_page s i = Some b \<or> length b < s_blocksize s)"
  using symlink_plain_too_long[of s symname env dir dentry]
    symlink_encrypted_oversized[of s dir env symname dentry]
    symlink_encrypted_enametoolong[of s dir symname env ino rest dentry c]
    symlink_encrypted_stored_fits[of s dir env dentry symname i b]
  by blast

theorem f2fs_symlink_name_too_long_witness:
  "s_blocksize sb_example < length (replicate 4097 CHR ''p'') \<and>
   f2fs_symlink env_ok sb_example 1 (mk_dentry 1 ''l'' None) (replicate 4097 CHR ''p'') =
     (Inl ENAMETOOLONG, sb_example) \<and>
   encrypted_inode (inodes sb_enc 1) \<and> 1 \<in> set (icache sb_enc) \<and>
   fname_usr_to_disk env_big 10 ''/a/b/c'' = Inr (replicate 4095 CHR ''x'') \<and>
   s_blocksize sb_enc < 2 + length (replicate 4095 CHR ''x'') \<and>
   fst (f2fs_symlink env_big sb_enc 1 (mk_dentry 1 ''l'' None) ''/a/b/c'') = Inl ENAMETOOLONG \<and>
   symlink_page (snd (f2fs_symlink env_big sb_enc 1 (mk_dentry 1 ''l'' None) ''/a/b/c'')) =
     symlink_page sb_enc \<and>
   symlink_page (snd (f2fs_symlink env_ok sb_enc 1 (mk_dentry 1 ''l'' None) ''/a/b/c'')) 10 =
     Some (cpu_to_le16 6 @ ''c/b/a/'') \<and>
   length (cpu_to_le16 6 @ ''c/b/a/'') < s_blocksize sb_enc"
proof -
  have bs: "s_blocksize sb_example = 4096" "s_blocksize sb_enc = 4096"
    by (simp_all add: sb_enc_def sb_example_def)
  have enc: "encrypted_inode (inodes sb_enc 1)" "1 \<in> set (icache sb_enc)"
    "symlink_page sb_enc 10 = None"
    by (simp_all add: sb_enc_def sb_example_def)
  have pre: "length ''/a/b/c'' \<le> s_blocksize sb_enc" "new_inode_ok env_big"
    "free_nids sb_enc = 10 # [11]" "10 \<notin> set (icache sb_enc)"
    "add_link_err env_big (d_parent (mk_dentry 1 ''l'' None)) (d_name (mk_dentry 1 ''l'' None)) = None"
    "encryption_info_err env_big 10 = None" "crypto_alloc_err env_big = None"
    "fname_usr_to_disk env_big 10 ''/a/b/c'' = Inr (replicate 4095 CHR ''x'')"
    by (simp_all add: sb_enc_def sb_example_def env_big_def env_ok_def)
  have big: "s_blocksize sb_enc < 2 + length (replicate 4095 CHR ''x'')"
    by (simp add: bs)
  have long: "s_blocksize sb_example < length (replicate 4097 CHR ''p'')"
    by (simp add: bs)
  have stored: "symlink_page (snd (f2fs_symlink env_ok sb_enc 1 (mk_dentry 1 ''l'' None) ''/a/b/c'')) 10 =
     Some (cpu_to_le16 6 @ ''c/b/a/'')"
    by (simp add: symlink_defs f2fs_new_inode_def alloc_nid_def insert_inode_locked_def Let_def
        sb_enc_def sb_example_def env_ok_def mk_dentry_def fresh_inode_def)
  note t = f2fs_symlink_name_too_long[of sb_example "replicate 4097 CHR ''p''" env_ok 1
      "mk_dentry 1 ''l'' None", THEN conjunct1, rule_format, OF long]
  note u = f2fs_symlink_name_too_long[of sb_enc "''/a/b/c''" env_big 1 "mk_dentry 1 ''l'' None"
      10 "[11]" "replicate 4095 CHR ''x''", THEN conjunct2, THEN conjunct2, THEN conjunct1,
      rule_format, OF conjI[OF enc(1) conjI[OF enc(2) conjI[OF pre(1) conjI[OF pre(2)
        conjI[OF pre(3) conjI[OF pre(4) conjI[OF pre(5) conjI[OF pre(6) conjI[OF pre(7)
        conjI[OF pre(8) big]]]]]]]]]]]
  note v = f2fs_symlink_name_too_long[of sb_enc "''/a/b/c''" env_ok 1 "mk_dentry 1 ''l'' None"
      _ _ _ 10 "cpu_to_le16 6 @ ''c/b/a/''", THEN conjunct2, THEN conjunct2, THEN conjunct2,
      rule_format, OF conjI[OF enc(1) conjI[OF enc(2) stored]]]
  from v enc(3) have fits: "length (cpu_to_le16 6 @ ''c/b/a/'') < s_blocksize sb_enc" by simp
  from t u long enc pre(8) big stored fits show ?thesis by simp
qed

section \<open>Verification: reading an encrypted symbolic link\<close>

lemma le16_to_cpu_update:
  "2 \<le> n \<Longrightarrow> le16_to_cpu (xs[n := c]) = le16_to_cpu xs"
proof -
  assume n: "2 \<le> n"
  then obtain m where m: "n = Suc (Suc m)" by (metis Suc_le_D numeral_2_eq_2 Suc_le_mono)
  show ?thesis
  proof (cases xs)
    case Nil
    then show ?thesis by simp
  next
    case (Cons a ys)
    then show ?thesis by (cases ys) (simp_all add: m le16_to_cpu_def first_byte_def)
  qed
qed

lemma le16_container: "n < 65536 \<Longrightarrow> le16_to_cpu (container_page n path) = n"
proof -
  assume n: "n < 65536"
  then have "n div 256 < 256" by simp
  then have "n mod 256 + 256 * (n div 256 mod 256) = n" by simp
  then show ?thesis
    by (simp add: container_page_def cpu_to_le16_def le16_to_cpu_def first_byte_def)
qed

lemma length_container: "length path \<le> 4094 \<Longrightarrow> length (container_page n path) = 4096"
  by (simp add: container_page_def cpu_to_le16_def)

text \<open>
  A stored length that does not fit the block size ends in \<open>EIO\<close>, after the buffer of
  that length was allocated and filled; no call of the cipher precedes the error.
\<close>

lemma follow_link_copy_before_check:
  assumes "fl_encryption_info_err inp = None" and "fl_page inp = Inr page"
    and "fl_kmalloc_ok inp"
    and "len = le16_to_cpu (page[min (fl_i_size inp) (length page - 1) := CHR 0x00])"
    and "len \<noteq> 0" and "fl_blocksize inp < len + 2"
  shows "f2fs_encrypted_follow_link inp = (Inl EIO, [Kmalloc len, Memcpy 2 len])"
  using assms
  by (simp add: f2fs_encrypted_follow_link_def Let_def sizeof_encrypted_symlink_data_def)

text \<open>A stored length that fits is decoded, and what the cipher returns is the link.\<close>

lemma follow_link_decoded:
  assumes "fl_encryption_info_err inp = None" and "fl_page inp = Inr page"
    and "fl_kmalloc_ok inp"
    and "len = le16_to_cpu (page[min (fl_i_size inp) (length page - 1) := CHR 0x00])"
    and "len \<noteq> 0" and "len + 2 \<le> fl_blocksize inp"
    and "fl_crypto_alloc_err inp = None"
    and "fl_disk_to_usr inp
           (take len (drop 2 (page[min (fl_i_size inp) (length page - 1) := CHR 0x00]
              @ fl_behind_page inp))) = Inr plain"
  shows "f2fs_encrypted_follow_link inp = (Inr plain, [Kmalloc len, Memcpy 2 len, Decrypt len])"
  using assms
  by (simp add: f2fs_encrypted_follow_link_def Let_def sizeof_encrypted_symlink_data_def)

lemma follow_link_decrypt_checked:
  assumes "Decrypt n \<in> set (snd (f2fs_encrypted_follow_link inp))"
  shows "n + 2 \<le> fl_blocksize inp"
  using assms
  by (auto simp: f2fs_encrypted_follow_link_def Let_def sizeof_encrypted_symlink_data_def
      split: option.splits sum.splits if_splits)

text \<open>
  A stored length of zero is not reported as a broken link: the first byte of the empty
  buffer is read before the length is compared with zero, and that read faults.
\<close>

lemma follow_link_empty_buffer:
  assumes "fl_encryption_info_err inp = None" and "fl_page inp = Inr page"
    and "fl_kmalloc_ok inp"
    and "le16_to_cpu (page[min (fl_i_size inp) (length page - 1) := CHR 0x00]) = 0"
  shows "f2fs_encrypted_follow_link inp = (Inl OOPS, [Kmalloc 0, Memcpy 2 0])"
  using assms
  by (simp add: f2fs_encrypted_follow_link_def Let_def)

text \<open>The error \<open>ENOENT\<close> is never the answer of the function's own test.\<close>

lemma follow_link_enoent_from_collaborator:
  assumes "fst (f2fs_encrypted_follow_link inp) = Inl ENOENT"
  shows "fl_encryption_info_err inp = Some ENOENT \<or> fl_page inp = Inl ENOENT \<or>
         fl_crypto_alloc_err inp = Some ENOENT \<or>
         (\<exists>c. fl_disk_to_usr inp c = Inl ENOENT)"
  using assms
  by (auto simp: f2fs_encrypted_follow_link_def Let_def
      split: option.splits sum.splits if_splits)

text \<open>
  Claim C7 does not hold of the code, and the code departs from its own comments.  On a
  page of 4096 bytes whose length field holds 65535, with block size 4096, the code
  allocates 65535 bytes and copies 65535 bytes from offset 2 of the page, and only then
  compares the length with the block size and returns \<open>EIO\<close>: the length is used
  before it is validated.  When the cipher decodes a container of three bytes to the
  empty string, the empty path is returned; no broken-symlink error is reported.  And
  for a container whose length field holds 0, the case the comment calls the broken
  symlink, the code reads the first byte of a buffer of no bytes and faults; \<open>ENOENT\<close>
  is not returned.
\<close>

theorem f2fs_encrypted_follow_link_uses_length_unchecked:
  "length (container_page 65535 ''abc'') = 4096 \<and>
   f2fs_encrypted_follow_link (follow_example (container_page 65535 ''abc'') (\<lambda>c. Inr (rev c))) =
     (Inl EIO, [Kmalloc 65535, Memcpy 2 65535]) \<and>
   f2fs_encrypted_follow_link (follow_example (container_page 3 ''abc'') (\<lambda>c. Inr [])) =
     (Inr [], [Kmalloc 3, Memcpy 2 3, Decrypt 3]) \<and>
   f2fs_encrypted_follow_link (follow_example (container_page 0 []) (\<lambda>c. Inr (rev c))) =
     (Inl OOPS, [Kmalloc 0, Memcpy 2 0])"
proof -
  have l: "length (container_page 65535 ''abc'') = 4096" "length (container_page 3 ''abc'') = 4096"
    "length (container_page 0 []) = 4096"
    by (simp_all add: length_container)
  have n1: "le16_to_cpu ((container_page 65535 ''abc'')[4095 := CHR 0x00]) = 65535"
    by (simp add: le16_to_cpu_update le16_container)
  have n2: "le16_to_cpu ((container_page 3 ''abc'')[4095 := CHR 0x00]) = 3"
    by (simp add: le16_to_cpu_update le16_container)
  have n0: "le16_to_cpu ((container_page 0 [])[4095 := CHR 0x00]) = 0"
    by (simp add: le16_to_cpu_update le16_container)
  have a: "f2fs_encrypted_follow_link (follow_example (container_page 65535 ''abc'') (\<lambda>c. Inr (rev c))) =
     (Inl EIO, [Kmalloc 65535, Memcpy 2 65535])"
    by (rule follow_link_copy_before_check[where page = "container_page 65535 ''abc''"])
       (simp_all add: follow_example_def l n1)
  have b: "f2fs_encrypted_follow_link (follow_example (container_page 3 ''abc'') (\<lambda>c. Inr [])) =
     (Inr [], [Kmalloc 3, Memcpy 2 3, Decrypt 3])"
    by (rule follow_link_decoded[where page = "container_page 3 ''abc''"])
       (simp_all add: follow_example_def l n2)
  have c: "f2fs_encrypted_follow_link (follow_example (container_page 0 []) (\<lambda>c. Inr (rev c))) =
     (Inl OOPS, [Kmalloc 0, Memcpy 2 0])"
    by (rule follow_link_empty_buffer[where page = "container_page 0 []"])
       (simp_all add: follow_example_def l n0)
  from l a b c show ?thesis by simp
qed

section \<open>Verification: rename\<close>

lemmas prim_defs = f2fs_find_entry_def f2fs_parent_dir_def f2fs_empty_dir_def
  f2fs_add_link_def f2fs_add_link_raw_def f2fs_delete_entry_def f2fs_set_link_def
  acquire_orphan_inode_def release_orphan_inode_def add_orphan_inode_def
  drop_nlink_def inc_nlink_def f2fs_lock_op_def f2fs_unlock_op_def record_event_def
  update_dent_inode_def iput_def out_whiteout_def put_out_dir_def
  set_linkable_def clear_linkable_def rename_mark_old_def S_ISDIR_def
  alloc_nid_def alloc_nid_done_def alloc_nid_failed_def insert_inode_locked_def
  handle_failed_inode_def f2fs_do_tmpfile_def set_whiteout_dev_def fresh_inode_def
  set_enc_name_def file_lost_pino_def adjust_nlink_def name_matches_def retarget_slot_def

lemmas rename_defs = f2fs_rename_def rename_target_def rename_fixup_def rename_finish_def
  f2fs_create_whiteout_def f2fs_tmpfile_raw_def f2fs_new_inode_def

lemmas example_defs = sb_example_def sb_files_def sb_cross_def env_ok_def
  env_no_whiteout_link_def env_no_dent_update_def mk_dentry_def file_inode_def dir_inode_def
  sb_enc_d_def env_policy_mismatch_def sb_no_dotdot_def sb_dirs_def env_no_tmpfile_def




























text \<open>
  Claim C2 does not hold of the code.  A rename of \<open>a\<close> to the existing name \<open>b\<close> in
  which \<open>update_dent_inode\<close> fails returns success (0): the reserved orphan slot is
  released and the lock dropped, but the entry \<open>b\<close> still names inode 4, whose link
  count is still 1, and the entry \<open>a\<close> is still there.
\<close>

theorem f2fs_rename_success_without_replacement:
  "fst (f2fs_rename env_no_dent_update sb_files 1 (mk_dentry 1 ''a'' (Some 2))
          1 (mk_dentry 1 ''b'' (Some 4)) False) = Inr () \<and>
   dentries (snd (f2fs_rename env_no_dent_update sb_files 1 (mk_dentry 1 ''a'' (Some 2))
          1 (mk_dentry 1 ''b'' (Some 4)) False)) 1 =
     [Some (''.'', 1), Some (''..'', 1), Some (''a'', 2), Some (''d'', 3), Some (''b'', 4)] \<and>
   i_nlink (inodes (snd (f2fs_rename env_no_dent_update sb_files 1 (mk_dentry 1 ''a'' (Some 2))
          1 (mk_dentry 1 ''b'' (Some 4)) False)) 4) = 1 \<and>
   trace (snd (f2fs_rename env_no_dent_update sb_files 1 (mk_dentry 1 ''a'' (Some 2))
          1 (mk_dentry 1 ''b'' (Some 4)) False)) =
     [FindEntry 1 ''a'', FindEntry 1 ''b'', LockOp, AcquireOrphan None,
      UpdateDent 2 4 ''b'' (Some EIO), ReleaseOrphan, UnlockOp]"
  by (simp add: rename_defs prim_defs example_defs Let_def)

text \<open>
  Claim C3 does not hold of the code.  The file \<open>a\<close> of the root is exchanged with the
  directory \<open>e\<close> of \<open>d\<close>; the root, the parent of the file, has link count
  \<open>F2FS_LINK_MAX\<close>.  The exchange succeeds and the link count of the root wraps to 0:
  the ceiling was checked on the file (link count 1), not on its parent.  With the
  ceiling reached by the file and not by the root, the exchange is refused.
\<close>

theorem f2fs_cross_rename_parent_link_count_unchecked:
  "S_ISDIR sb_cross 7 \<and> \<not> S_ISDIR sb_cross 2 \<and>
   i_nlink (inodes sb_cross 1) = F2FS_LINK_MAX \<and>
   fst (f2fs_cross_rename env_ok sb_cross 1 (mk_dentry 1 ''a'' (Some 2))
          3 (mk_dentry 3 ''e'' (Some 7))) = Inr () \<and>
   i_nlink (inodes (snd (f2fs_cross_rename env_ok sb_cross 1 (mk_dentry 1 ''a'' (Some 2))
          3 (mk_dentry 3 ''e'' (Some 7)))) 1) = 0 \<and>
   dentries (snd (f2fs_cross_rename env_ok sb_cross 1 (mk_dentry 1 ''a'' (Some 2))
          3 (mk_dentry 3 ''e'' (Some 7)))) 1 =
     [Some (''.'', 1), Some (''..'', 1), Some (''a'', 7), Some (''d'', 3)] \<and>
   fst (f2fs_cross_rename env_ok
          (sb_cross\<lparr>inodes := (inodes sb_cross)
             (1 := dir_inode\<lparr>i_nlink := 3\<rparr>, 2 := file_inode\<lparr>i_nlink := 0xffffffff\<rparr>)\<rparr>)
          1 (mk_dentry 1 ''a'' (Some 2)) 3 (mk_dentry 3 ''e'' (Some 7))) = Inl EMLINK"
  by (simp add: f2fs_cross_rename_def cross_rename_commit_def prim_defs example_defs Let_def
      F2FS_LINK_MAX_def word_le_nat_alt)

end
